theory Spec2Isabelle
  imports Main
begin

section \<open>Data model (frontend/src/types)\<close>

text \<open>
  JavaScript numbers that hold identifiers, counters and \<open>Date.now()\<close> readings are
  modelled as \<open>int\<close>. A point in time is the millisecond reading of the clock; the
  source stores most of them rendered by \<open>toISOString()\<close>, which is determined by that
  reading, so the model stores the reading itself. An optional property
  (\<open>name?: T\<close>) is an \<open>option\<close>, \<open>None\<close> standing for \<open>undefined\<close>.
  The non-ASCII string literals of the source are written transliterated.
\<close>

type_synonym timestamp = int

datatype chat_type = Private | Group | Supergroup | Channel

datatype category = Client | Partner | Lead | Spam | Other

datatype source = SrcPrivate | SrcGroup

datatype manager_role = RoleManager | RoleAdmin

datatype transfer_status = New | InProgress | Completed | Cancelled

datatype member_role = Member | Admin | Creator | Restricted | Left | Kicked

datatype message =
  Message (msg_id: int) (msg_chat_id: int) (msg_sender_id: int) (msg_text: string)
    (msg_date: int) (msg_reply_to_message: "message option") (msg_from_me: bool)

text \<open>
  The value of a property that names a manager, as the code that reads stored chats tells
  its values apart: \<open>NoRef\<close> is \<open>undefined\<close> or \<open>null\<close> (what \<open>??\<close> skips), \<open>Ref n\<close> is the number
  \<open>n\<close>, and \<open>NotRef s\<close> is any other value, kept as its JSON text: a string, a boolean, an
  object (for these \<open>typeof\<close> is not \<open>'number'\<close>), or a number that is not an integer (it
  is no manager id either).
\<close>

datatype owner_ref = NoRef | Ref int | NotRef string

text \<open>
  \<open>Chat\<close>. Stored chats are read back as \<open>any[]\<close> by the migration and the repair pass,
  which both allow for a missing or non-numeric \<open>manager_id\<close> and for the legacy field
  \<open>account_id\<close>.
\<close>

record chat =
  c_id :: int
  c_type :: chat_type
  c_title :: "string option"
  c_username :: "string option"
  c_first_name :: "string option"
  c_last_name :: "string option"
  c_photo :: "string option"
  c_last_message :: "message option"
  c_unread_count :: int
  c_pinned :: bool
  c_muted :: bool
  c_is_bot_chat :: bool
  c_manager_id :: owner_ref
  c_account_id :: owner_ref

record manager =
  m_id :: int
  m_name :: string
  m_telegram_user_id :: "int option"
  m_role :: "manager_role option"
  m_created_at :: timestamp

record history_entry =
  h_username :: string
  h_changed_at :: timestamp

record account =
  a_id :: int
  a_user_id :: int
  a_username :: "string option"
  a_username_history :: "history_entry list option"
  a_first_name :: string
  a_last_name :: "string option"
  a_rating :: int
  a_tags :: "string list"
  a_category :: category
  a_notes :: string
  a_source :: source
  a_created_at :: timestamp
  a_last_contact :: timestamp
  a_total_messages :: int
  a_chat_type :: "chat_type option"
  a_registration_date :: "string option"
  a_brand_name :: "string option"
  a_position :: "string option"
  a_years_in_market :: "int option"
  a_manager_id :: "int option"

text \<open>
  \<open>Partial<Account>\<close>: every key may be absent (\<open>None\<close>). A key of an optional property
  may also be present and hold \<open>undefined\<close> (\<open>Some None\<close>), which the object spread
  copies like any other value.
\<close>

record account_updates =
  u_id :: "int option"
  u_user_id :: "int option"
  u_username :: "string option option"
  u_username_history :: "history_entry list option option"
  u_first_name :: "string option"
  u_last_name :: "string option option"
  u_rating :: "int option"
  u_tags :: "string list option"
  u_category :: "category option"
  u_notes :: "string option"
  u_source :: "source option"
  u_created_at :: "timestamp option"
  u_last_contact :: "timestamp option"
  u_total_messages :: "int option"
  u_chat_type :: "chat_type option option"
  u_registration_date :: "string option option"
  u_brand_name :: "string option option"
  u_position :: "string option option"
  u_years_in_market :: "int option option"
  u_manager_id :: "int option option"

section \<open>JavaScript operators used by the facade\<close>

text \<open>Truthiness of an optional string: \<open>undefined\<close> and \<open>''\<close> are falsy.\<close>

definition truthy_str :: "string option \<Rightarrow> bool" where
  "truthy_str s = (case s of None \<Rightarrow> False | Some v \<Rightarrow> v \<noteq> [])"

text \<open>Truthiness of an optional number: \<open>undefined\<close> and \<open>0\<close> are falsy.\<close>

definition truthy_num :: "int option \<Rightarrow> bool" where
  "truthy_num n = (case n of None \<Rightarrow> False | Some v \<Rightarrow> v \<noteq> 0)"

text \<open>\<open>a ?? b\<close> on optional values.\<close>

definition nullish :: "'a option \<Rightarrow> 'a option \<Rightarrow> 'a option" where
  "nullish a b = (case a of None \<Rightarrow> b | Some v \<Rightarrow> Some v)"

text \<open>One key of \<open>{ ...old, ...updates }\<close>: a present key overwrites.\<close>

definition spread :: "'a \<Rightarrow> 'a option \<Rightarrow> 'a" where
  "spread old upd = (case upd of None \<Rightarrow> old | Some v \<Rightarrow> v)"

text \<open>
  A JavaScript number is an IEEE double. Where the code computes with a number, an \<open>int\<close>
  stands for a double that holds an integer, and the result is rounded as the double is:
  to the nearest double, a tie to the one with the even mantissa of 53 bits (overflow to
  \<open>Infinity\<close>, beyond \<open>2^1024\<close>, is left out). \<open>ulp a\<close> is the distance between neighbouring
  doubles at the magnitude \<open>a\<close>; 9007199254740992 is \<open>2^53\<close>.
\<close>

function ulp :: "nat \<Rightarrow> nat" where
  "ulp a = (if a < 9007199254740992 then 1 else 2 * ulp (a div 2))"
  by pat_completeness auto
termination
  by (relation "measure (\<lambda>a. a)") auto

declare ulp.simps [simp del]

definition double_round :: "int \<Rightarrow> int" where
  "double_round x =
     (let a = nat \<bar>x\<bar>; u = ulp a; q = a div u; r = a mod u;
          m = (if 2 * r < u \<or> (2 * r = u \<and> even q) then q else q + 1)
      in sgn x * int (m * u))"

text \<open>\<open>a + b\<close> on numbers\<close>

definition js_add :: "int \<Rightarrow> int \<Rightarrow> int" where
  "js_add a b = double_round (a + b)"

text \<open>\<open>managers[0]?.id\<close>\<close>

definition first_manager_id :: "manager list \<Rightarrow> int option" where
  "first_manager_id ms = (case ms of [] \<Rightarrow> None | m # _ \<Rightarrow> Some (m_id m))"

text \<open>\<open>activeManager?.id\<close>\<close>

definition active_manager_id :: "manager option \<Rightarrow> int option" where
  "active_manager_id am = map_option m_id am"

section \<open>Contacts: createAccountFromChat, addAccount, updateAccount, deleteAccount\<close>

definition placeholder_name :: string where
  "placeholder_name = ''Bez imeni''"

definition auto_notes :: "chat_type \<Rightarrow> string" where
  "auto_notes t = ''Avtomaticheski sozdan iz '' @
     (if t = Private then ''lichnogo chata'' else ''gruppovogo chata'')"

text \<open>\<open>s || d\<close> for an optional string \<open>s\<close> and a string \<open>d\<close>\<close>

definition str_or :: "string option \<Rightarrow> string \<Rightarrow> string" where
  "str_or s d = (case s of None \<Rightarrow> d | Some v \<Rightarrow> if v = [] then d else v)"

text \<open>\<open>chat.first_name || chat.title || chat.username || placeholder\<close>\<close>

definition resolve_first_name :: "chat \<Rightarrow> string" where
  "resolve_first_name ch =
     str_or (c_first_name ch) (str_or (c_title ch) (str_or (c_username ch) placeholder_name))"

text \<open>\<open>s || undefined\<close>\<close>

definition or_undefined :: "string option \<Rightarrow> string option" where
  "or_undefined s = (if truthy_str s then s else None)"

text \<open>The record built in the not-found branch of \<open>createAccountFromChat\<close>.\<close>

definition newAccount :: "timestamp \<Rightarrow> manager option \<Rightarrow> manager list \<Rightarrow> chat \<Rightarrow> int \<Rightarrow> account" where
  "newAccount now activeManager managers ch senderId =
     \<lparr> a_id = now,
       a_user_id = senderId,
       a_username = or_undefined (c_username ch),
       a_username_history = None,
       a_first_name = resolve_first_name ch,
       a_last_name = or_undefined (c_last_name ch),
       a_rating = 1,
       a_tags = [],
       a_category = (if c_type ch = Private then Lead else Other),
       a_notes = auto_notes (c_type ch),
       a_source = (if c_type ch = Private then SrcPrivate else SrcGroup),
       a_created_at = now,
       a_last_contact = now,
       a_total_messages = 1,
       a_chat_type = Some (c_type ch),
       a_registration_date = None,
       a_brand_name = None,
       a_position = None,
       a_years_in_market = None,
       a_manager_id =
         (if truthy_num (active_manager_id activeManager) then active_manager_id activeManager
          else first_manager_id managers) \<rparr>"

text \<open>The update applied to the matching records in the found branch.\<close>

definition touch :: "timestamp \<Rightarrow> account \<Rightarrow> account" where
  "touch now acc =
     acc\<lparr> a_last_contact := now, a_total_messages := js_add (a_total_messages acc) 1 \<rparr>"

definition createAccountFromChat ::
  "timestamp \<Rightarrow> manager option \<Rightarrow> manager list \<Rightarrow> chat \<Rightarrow> int \<Rightarrow> account list \<Rightarrow> account list" where
  "createAccountFromChat now activeManager managers ch senderId prev =
     (case find (\<lambda>acc. a_user_id acc = senderId) prev of
        Some existing \<Rightarrow> map (\<lambda>acc. if a_id acc = a_id existing then touch now acc else acc) prev
      | None \<Rightarrow> prev @ [newAccount now activeManager managers ch senderId])"

text \<open>
  \<open>addAccount\<close> takes an \<open>Omit<Account, 'id'>\<close>: the \<open>a_id\<close> of the argument is not
  read, the new record gets \<open>Date.now()\<close>.
\<close>

definition addAccount ::
  "timestamp \<Rightarrow> manager option \<Rightarrow> manager list \<Rightarrow> account \<Rightarrow> account list \<Rightarrow> account list" where
  "addAccount now activeManager managers account prev =
     prev @ [account\<lparr> a_id := now,
                      a_manager_id := nullish (a_manager_id account)
                        (nullish (active_manager_id activeManager) (first_manager_id managers)) \<rparr>]"

text \<open>\<open>account.username_history || []\<close>\<close>

definition history_of :: "account \<Rightarrow> history_entry list" where
  "history_of account = (case a_username_history account of None \<Rightarrow> [] | Some h \<Rightarrow> h)"

text \<open>The history computed by \<open>updateAccount\<close> for one matching record.\<close>

definition track_username :: "timestamp \<Rightarrow> account \<Rightarrow> account_updates \<Rightarrow> history_entry list" where
  "track_username now account updates =
     (let username_history = history_of account
      in case u_username updates of
           Some (Some u) \<Rightarrow>
             if u \<noteq> [] \<and> Some u \<noteq> a_username account
             then take 20 (\<lparr> h_username = str_or (a_username account) ''(empty)'',
                             h_changed_at = now \<rparr> # username_history)
             else username_history
         | _ \<Rightarrow> username_history)"

text \<open>\<open>{ ...account, ...updates, username_history }\<close>\<close>

definition apply_updates :: "timestamp \<Rightarrow> account \<Rightarrow> account_updates \<Rightarrow> account" where
  "apply_updates now account updates =
     \<lparr> a_id = spread (a_id account) (u_id updates),
       a_user_id = spread (a_user_id account) (u_user_id updates),
       a_username = spread (a_username account) (u_username updates),
       a_username_history = Some (track_username now account updates),
       a_first_name = spread (a_first_name account) (u_first_name updates),
       a_last_name = spread (a_last_name account) (u_last_name updates),
       a_rating = spread (a_rating account) (u_rating updates),
       a_tags = spread (a_tags account) (u_tags updates),
       a_category = spread (a_category account) (u_category updates),
       a_notes = spread (a_notes account) (u_notes updates),
       a_source = spread (a_source account) (u_source updates),
       a_created_at = spread (a_created_at account) (u_created_at updates),
       a_last_contact = spread (a_last_contact account) (u_last_contact updates),
       a_total_messages = spread (a_total_messages account) (u_total_messages updates),
       a_chat_type = spread (a_chat_type account) (u_chat_type updates),
       a_registration_date = spread (a_registration_date account) (u_registration_date updates),
       a_brand_name = spread (a_brand_name account) (u_brand_name updates),
       a_position = spread (a_position account) (u_position updates),
       a_years_in_market = spread (a_years_in_market account) (u_years_in_market updates),
       a_manager_id = spread (a_manager_id account) (u_manager_id updates) \<rparr>"

definition updateAccount :: "timestamp \<Rightarrow> int \<Rightarrow> account_updates \<Rightarrow> account list \<Rightarrow> account list" where
  "updateAccount now ident updates prev =
     map (\<lambda>account. if a_id account \<noteq> ident then account else apply_updates now account updates) prev"

definition deleteAccount :: "int \<Rightarrow> account list \<Rightarrow> account list" where
  "deleteAccount ident prev = filter (\<lambda>account. a_id account \<noteq> ident) prev"

text \<open>\<open>getAccountByUserId\<close>\<close>

definition getAccountByUserId :: "account list \<Rightarrow> int \<Rightarrow> account option" where
  "getAccountByUserId accounts userId = find (\<lambda>account. a_user_id account = userId) accounts"

text \<open>The updates object with no key.\<close>

definition no_updates :: account_updates where
  "no_updates =
     \<lparr> u_id = None, u_user_id = None, u_username = None, u_username_history = None,
       u_first_name = None, u_last_name = None, u_rating = None, u_tags = None,
       u_category = None, u_notes = None, u_source = None, u_created_at = None,
       u_last_contact = None, u_total_messages = None, u_chat_type = None,
       u_registration_date = None, u_brand_name = None, u_position = None,
       u_years_in_market = None, u_manager_id = None \<rparr>"

text \<open>A private chat with nothing but a first name, and a group chat with a title.\<close>

definition example_chat :: "int \<Rightarrow> chat_type \<Rightarrow> string option \<Rightarrow> string option \<Rightarrow> string option \<Rightarrow> chat" where
  "example_chat ident kind first title uname =
     \<lparr> c_id = ident, c_type = kind, c_title = title, c_username = uname, c_first_name = first,
       c_last_name = None, c_photo = None, c_last_message = None, c_unread_count = 0,
       c_pinned = False, c_muted = False, c_is_bot_chat = False, c_manager_id = NoRef,
       c_account_id = NoRef \<rparr>"

text \<open>
  A call of one of the four contact mutators of the facade, with the clock reading and the
  closure values (\<open>activeManager\<close>, \<open>managers\<close>) it runs with; \<open>run_ops\<close> applies a sequence
  of calls to the accounts collection, in order.
\<close>

datatype account_op =
    AddAccount timestamp "manager option" "manager list" account
  | CreateAccountFromChat timestamp "manager option" "manager list" chat int
  | UpdateAccount timestamp int account_updates
  | DeleteAccount int

fun apply_op :: "account_op \<Rightarrow> account list \<Rightarrow> account list" where
  "apply_op (AddAccount now am ms account) accs = addAccount now am ms account accs"
| "apply_op (CreateAccountFromChat now am ms ch senderId) accs = createAccountFromChat now am ms ch senderId accs"
| "apply_op (UpdateAccount now ident updates) accs = updateAccount now ident updates accs"
| "apply_op (DeleteAccount ident) accs = deleteAccount ident accs"

definition run_ops :: "account_op list \<Rightarrow> account list \<Rightarrow> account list" where
  "run_ops ops accs = fold apply_op ops accs"

text \<open>
  The calls under which identity uniqueness is kept: every \<open>createAccountFromChat\<close> and
  \<open>deleteAccount\<close>; \<open>addAccount\<close> for a \<open>user_id\<close> that is not in the collection yet; and
  \<open>updateAccount\<close> unless it moves a record onto the \<open>user_id\<close> of another one, that is:
  its updates carry no \<open>user_id\<close>, or no record has the id, or exactly one record has the
  id and the \<open>user_id\<close> of the updates is held by no other record (as when the updates
  carry the record's own \<open>user_id\<close>).
\<close>

fun op_ok :: "account_op \<Rightarrow> account list \<Rightarrow> bool" where
  "op_ok (AddAccount now am ms account) accs = (a_user_id account \<notin> a_user_id ` set accs)"
| "op_ok (CreateAccountFromChat now am ms ch senderId) accs = True"
| "op_ok (UpdateAccount now ident updates) accs =
     (case u_user_id updates of
        None \<Rightarrow> True
      | Some v \<Rightarrow>
          filter (\<lambda>a. a_id a = ident) accs = []
          \<or> (length (filter (\<lambda>a. a_id a = ident) accs) = 1
             \<and> v \<notin> a_user_id ` set (filter (\<lambda>a. a_id a \<noteq> ident) accs)))"
| "op_ok (DeleteAccount ident) accs = True"

fun ops_ok :: "account_op list \<Rightarrow> account list \<Rightarrow> bool" where
  "ops_ok [] accs = True"
| "ops_ok (op # ops) accs = (op_ok op accs \<and> ops_ok ops (apply_op op accs))"

text \<open>A sequence of \<open>createAccountFromChat\<close> calls for one sender id.\<close>

definition upserts :: "int \<Rightarrow> (timestamp \<times> manager option \<times> manager list \<times> chat) list \<Rightarrow> account_op list" where
  "upserts senderId calls = map (\<lambda>(now, am, ms, ch). CreateAccountFromChat now am ms ch senderId) calls"

text \<open>An account as the manual form submits it.\<close>

definition example_account :: "int \<Rightarrow> int \<Rightarrow> account" where
  "example_account ident userId =
     \<lparr> a_id = ident, a_user_id = userId, a_username = None, a_username_history = None,
       a_first_name = ''Ann'', a_last_name = None, a_rating = 1, a_tags = [], a_category = Lead,
       a_notes = [], a_source = SrcPrivate, a_created_at = 0, a_last_contact = 0,
       a_total_messages = 0, a_chat_type = None, a_registration_date = None, a_brand_name = None,
       a_position = None, a_years_in_market = None, a_manager_id = None \<rparr>"

text \<open>
  The effect of \<open>ChatMessages\<close> with its \<open>processedRef\<close> guard. \<open>ChatWindow\<close> renders
  \<open>ChatMessages\<close> only while there is an active chat, so with no active chat the component
  is unmounted and its ref is lost: the next mount starts with an empty set. While it is
  mounted, the effect runs \<open>createAccountFromChat(activeChat, activeChat.id)\<close> unless the
  chat id is in the set. The state is the set held by \<open>processedRef\<close> and the accounts
  collection.
\<close>

definition chat_opened ::
  "timestamp \<Rightarrow> manager option \<Rightarrow> manager list \<Rightarrow> chat option \<Rightarrow> int set \<times> account list \<Rightarrow> int set \<times> account list" where
  "chat_opened now activeManager managers activeChat st =
     (case activeChat of
        None \<Rightarrow> ({}, snd st)
      | Some ch \<Rightarrow>
          if c_id ch \<in> fst st then st
          else (insert (c_id ch) (fst st),
                createAccountFromChat now activeManager managers ch (c_id ch) (snd st)))"

text \<open>
  A username change is an \<open>updateAccount\<close> call that takes the tracking branch: its updates
  carry a non-empty \<open>username\<close> that differs from the stored one.
\<close>

definition is_username_change :: "account \<Rightarrow> account_updates \<Rightarrow> bool" where
  "is_username_change account updates =
     (case u_username updates of
        Some (Some u) \<Rightarrow> u \<noteq> [] \<and> Some u \<noteq> a_username account
      | _ \<Rightarrow> False)"

text \<open>A sequence of updates, each with its clock reading, applied to one record in order.\<close>

definition apply_changes :: "account \<Rightarrow> (timestamp \<times> account_updates) list \<Rightarrow> account" where
  "apply_changes account cs = foldl (\<lambda>acc (now, updates). apply_updates now acc updates) account cs"

fun username_changes :: "account \<Rightarrow> (timestamp \<times> account_updates) list \<Rightarrow> bool" where
  "username_changes account [] = True"
| "username_changes account ((now, updates) # cs) =
     (is_username_change account updates \<and> username_changes (apply_updates now account updates) cs)"

text \<open>
  The entries a sequence of changes pushes, in the order of the changes: the username
  stored before each change (or the \<open>(empty)\<close> mark), with the time of the change.
\<close>

fun pushed :: "account \<Rightarrow> (timestamp \<times> account_updates) list \<Rightarrow> history_entry list" where
  "pushed account [] = []"
| "pushed account ((now, updates) # cs) =
     \<lparr> h_username = str_or (a_username account) ''(empty)'', h_changed_at = now \<rparr>
       # pushed (apply_updates now account updates) cs"

text \<open>
  The condition under which the \<open>changed_at\<close> stamps of the resulting history descend. Of
  the changes, the last 20 leave an entry; of the history the account had, the first
  \<open>20 - length cs\<close> entries remain. Among those: the clock readings of the changes do not
  decrease, the stamps of the remaining stored entries descend, and no remaining stored
  entry is later than a change.
\<close>

definition stamps_in_order :: "account \<Rightarrow> (timestamp \<times> account_updates) list \<Rightarrow> bool" where
  "stamps_in_order account cs =
     (let kept_changes = drop (length cs - 20) cs;
          kept_stored = take (20 - length cs) (history_of account)
      in sorted (map fst kept_changes)
         \<and> sorted_wrt (\<lambda>x y. x \<ge> y) (map h_changed_at kept_stored)
         \<and> list_all (\<lambda>e. list_all (\<lambda>c. h_changed_at e \<le> fst c) kept_changes) kept_stored)"

text \<open>The updates object \<open>{ username: u }\<close>.\<close>

definition rename :: "string \<Rightarrow> account_updates" where
  "rename u = no_updates\<lparr> u_username := Some (Some u) \<rparr>"

section \<open>Chats and managers: seeding and the repair pass\<close>

text \<open>
  \<open>createMockChats(managerId)\<close>. The dates of the last messages are offsets from
  \<open>Date.now()\<close>.
\<close>

definition createMockChats :: "timestamp \<Rightarrow> int \<Rightarrow> chat list" where
  "createMockChats now managerId =
     [ \<lparr> c_id = 1, c_type = Private, c_title = None, c_username = Some ''johnsmith'',
         c_first_name = Some ''John'', c_last_name = Some ''Smith'', c_photo = None,
         c_last_message = Some (Message 1 1 1 ''Privet! Kak dela s proektom?'' (now - 3600000) None False),
         c_unread_count = 3, c_pinned = True, c_muted = False, c_is_bot_chat = True,
         c_manager_id = Ref managerId, c_account_id = NoRef \<rparr>,
       \<lparr> c_id = 2, c_type = Private, c_title = None, c_username = Some ''anna_j'',
         c_first_name = Some ''Anna'', c_last_name = Some ''Johnson'', c_photo = None,
         c_last_message = Some (Message 2 2 2 ''Spasibo za predlozhenie!'' (now - 7200000) None True),
         c_unread_count = 0, c_pinned = False, c_muted = False, c_is_bot_chat = True,
         c_manager_id = Ref managerId, c_account_id = NoRef \<rparr>,
       \<lparr> c_id = 3, c_type = Group, c_title = Some ''Team Discussion'', c_username = None,
         c_first_name = None, c_last_name = None, c_photo = None,
         c_last_message = Some (Message 3 3 3 ''Vstrecha zavtra v 10:00'' (now - 1800000) None False),
         c_unread_count = 12, c_pinned = False, c_muted = True, c_is_bot_chat = True,
         c_manager_id = Ref managerId, c_account_id = NoRef \<rparr> ]"

text \<open>
  The body of the \<open>map\<close> of the repair effect for one chat: the chat it returns, and whether
  it set the \<open>changed\<close> flag. \<open>managerIds\<close> is the set of the current manager ids and
  \<open>firstId\<close> is \<open>managers[0].id\<close>.
\<close>

definition normalize_chat :: "int set \<Rightarrow> int \<Rightarrow> chat \<Rightarrow> chat \<times> bool" where
  "normalize_chat managerIds firstId c =
     (if (case c_manager_id c of Ref mgrId \<Rightarrow> mgrId \<notin> managerIds | _ \<Rightarrow> True)
      then (c\<lparr> c_manager_id :=
                 Ref (case c_account_id c of
                        Ref a \<Rightarrow> if a \<in> managerIds then a else firstId
                      | _ \<Rightarrow> firstId) \<rparr>, True)
      else (c, False))"

text \<open>
  The updater the repair effect passes to \<open>setChats\<close>: the new chats collection and what
  it writes under the chats key (\<open>None\<close>: no write).
\<close>

definition repair_chats :: "timestamp \<Rightarrow> int set \<Rightarrow> int \<Rightarrow> chat list \<Rightarrow> chat list \<times> chat list option" where
  "repair_chats now managerIds firstId prev =
     (if prev = [] then (createMockChats now firstId, Some (createMockChats now firstId))
      else
        let rs = map (normalize_chat managerIds firstId) prev;
            normalized = map fst rs;
            changed = list_ex snd rs
        in if changed then (normalized, Some normalized) else (prev, None))"

text \<open>
  The repair effect, run when \<open>managers\<close> changes. With no manager it returns before
  touching the chats.
\<close>

definition repair :: "timestamp \<Rightarrow> manager list \<Rightarrow> chat list \<Rightarrow> chat list \<times> chat list option" where
  "repair now managers prev =
     (case managers of
        [] \<Rightarrow> (prev, None)
      | m0 # _ \<Rightarrow> repair_chats now (m_id ` set managers) (m_id m0) prev)"

text \<open>The chat's \<open>manager_id\<close> is a number in the given id set.\<close>

definition owned_by :: "int set \<Rightarrow> chat \<Rightarrow> bool" where
  "owned_by ids c = (case c_manager_id c of Ref i \<Rightarrow> i \<in> ids | _ \<Rightarrow> False)"

text \<open>The chat's legacy \<open>account_id\<close> is a number in the given id set.\<close>

definition hint_ok :: "int set \<Rightarrow> chat \<Rightarrow> bool" where
  "hint_ok ids c = (case c_account_id c of Ref a \<Rightarrow> a \<in> ids | _ \<Rightarrow> False)"

definition example_manager :: "int \<Rightarrow> manager" where
  "example_manager ident =
     \<lparr> m_id = ident, m_name = ''M'', m_telegram_user_id = None, m_role = Some RoleManager,
       m_created_at = 0 \<rparr>"

section \<open>Persisted collections, migration and the initial load\<close>

record transfer_record =
  tr_id :: int
  tr_supplier_account_id :: int
  tr_client_account_id :: int
  tr_created_at :: timestamp
  tr_status :: transfer_status
  tr_notes :: "string option"

text \<open>
  What \<open>localStorage.getItem\<close> holds under the key of a collection, as the loading code
  sees it: nothing (\<open>null\<close> or the empty string, both falsy); a string \<open>JSON.parse\<close> throws
  on; a string that parses to an array of records of the collection; or (\<open>Unreadable\<close>) a
  string that parses to a value the code cannot read as such an array. For the managers
  key these are \<open>null\<close>, a number, a boolean, an object that has neither a \<open>length\<close> nor an
  element \<open>0\<close>, and an array whose first element is \<open>null\<close>: \<open>mgrs.length\<close> or \<open>mgrs[0].id\<close>
  throws a \<open>TypeError\<close> on them. For the chats key these are every value that is not an
  array, and an array that holds \<open>null\<close>: \<open>existingChats.map\<close>, or \<open>c.manager_id\<close> inside it,
  throws a \<open>TypeError\<close> on them. For the keywords key these are the values \<open>Array.isArray\<close>
  rejects. Parsed values of other shapes, on which nothing throws (a string under the
  managers key, an array of numbers, records that lack fields of the interface), are not
  represented.
\<close>

datatype 'a payload = Absent | Corrupt | Unreadable | Stored "'a list"

text \<open>
  The keys of \<open>localStorage\<close> read at start. An element of the stored keywords array that
  is not a string is \<open>None\<close>. The schema marker is the number its string converts to.
\<close>

record local_storage =
  ls_logged_in :: bool
  ls_accounts :: "account payload"
  ls_transfers :: "transfer_record payload"
  ls_keywords :: "string option payload"
  ls_managers :: "manager payload"
  ls_chats :: "chat payload"
  ls_schema_version :: "int option"

text \<open>The collections held by \<open>AppProvider\<close> (the mock chat summaries are left out).\<close>

record app_state =
  st_accounts :: "account list"
  st_transferRecords :: "transfer_record list"
  st_keywords :: "string list"
  st_managers :: "manager list"
  st_chats :: "chat list"
  st_activeManager :: "manager option"
  st_activeChat :: "chat option"

datatype load_error = SyntaxError | TypeError

text \<open>\<open>let xs = []; if (raw) { try { xs = JSON.parse(raw) } catch {} }\<close>\<close>

definition parsed :: "'a payload \<Rightarrow> 'a list" where
  "parsed p = (case p of Stored xs \<Rightarrow> xs | _ \<Rightarrow> [])"

text \<open>
  \<open>if (raw) { try { setX(JSON.parse(raw)) } catch {} }\<close>: the new value of the state. The
  setter takes an unreadable value as it is and nothing throws here; the state of the
  model holds lists of records only and keeps the list it has.
\<close>

definition load_guarded :: "'a payload \<Rightarrow> 'a list \<Rightarrow> 'a list" where
  "load_guarded p cur = (case p of Stored xs \<Rightarrow> xs | _ \<Rightarrow> cur)"

text \<open>\<open>if (raw) setX(JSON.parse(raw))\<close>, with no \<open>try\<close>: the exception leaves the effect.\<close>

definition load_unguarded :: "'a payload \<Rightarrow> 'a list \<Rightarrow> load_error + 'a list" where
  "load_unguarded p cur =
     (case p of Absent \<Rightarrow> Inr cur | Corrupt \<Rightarrow> Inl SyntaxError | Unreadable \<Rightarrow> Inr cur
      | Stored xs \<Rightarrow> Inr xs)"

text \<open>The manager created when none is stored.\<close>

definition new_manager :: "timestamp \<Rightarrow> manager" where
  "new_manager now =
     \<lparr> m_id = now, m_name = ''Menedzher 1'', m_telegram_user_id = None,
       m_role = Some RoleManager, m_created_at = now \<rparr>"

text \<open>\<open>a ?? b\<close> on such values: the left one unless it is \<open>undefined\<close> or \<open>null\<close>.\<close>

definition ref_or :: "owner_ref \<Rightarrow> owner_ref \<Rightarrow> owner_ref" where
  "ref_or a b = (case a of NoRef \<Rightarrow> b | _ \<Rightarrow> a)"

text \<open>\<open>{ ...c, manager_id: c.manager_id ?? c.account_id ?? mid }\<close>\<close>

definition migrate_chat :: "int \<Rightarrow> chat \<Rightarrow> chat" where
  "migrate_chat mid c =
     c\<lparr> c_manager_id := ref_or (c_manager_id c) (ref_or (c_account_id c) (Ref mid)) \<rparr>"

text \<open>
  \<open>migrateToManagers\<close>, on the pair of the storage and the state. An exception ends the
  function where it is thrown; \<open>Inl\<close> holds it with the storage left behind. On an
  unreadable managers payload \<open>mgrs.length\<close> or \<open>mgrs[0].id\<close> throws before anything is
  written. On an unreadable chats payload \<open>existingChats.map\<close> throws after the managers
  are settled (a created manager is already written) and before the chats and the marker
  are written. Otherwise \<open>mgrs\<close> is not empty where \<open>mgrs[0].id\<close> is read.
\<close>

definition migrateToManagers ::
  "timestamp \<Rightarrow> local_storage \<times> app_state
     \<Rightarrow> load_error \<times> local_storage + local_storage \<times> app_state" where
  "migrateToManagers now x =
     (let ls = fst x; st = snd x;
          existingChats = parsed (ls_chats ls);
          stored = parsed (ls_managers ls)
      in if ls_managers ls = Unreadable then Inl (TypeError, ls)
         else
           let mgrs = (if length stored = 0 then [new_manager now] else stored);
               ls1 = (if length stored = 0 then ls\<lparr> ls_managers := Stored mgrs \<rparr> else ls);
               st1 = st\<lparr> st_managers := mgrs \<rparr>;
               mid = m_id (hd mgrs)
           in if ls_chats ls = Unreadable then Inl (TypeError, ls1)
              else
                let migrated = map (migrate_chat mid) existingChats;
                    result = (if length migrated = 0 then createMockChats now mid else migrated)
                in Inr (ls1\<lparr> ls_chats := Stored result, ls_schema_version := Some 3 \<rparr>,
                        st1\<lparr> st_chats := result \<rparr>))"

text \<open>
  \<open>loadMockData\<close>, on a managers state that is a list of records (the initial load below
  handles the case in which it is not).
\<close>

definition loadMockData :: "timestamp \<Rightarrow> local_storage \<times> app_state \<Rightarrow> local_storage \<times> app_state" where
  "loadMockData now x =
     (let ls = fst x; st = snd x;
          prev = st_managers st;
          list = (if length prev = 0 then [new_manager now] else prev);
          ls1 = (if length prev = 0 then ls\<lparr> ls_managers := Stored list \<rparr> else ls);
          mockChats = createMockChats now (m_id (hd list))
      in (ls1\<lparr> ls_chats := Stored mockChats \<rparr>,
          st\<lparr> st_managers := list, st_chats := mockChats \<rparr>))"

text \<open>\<open>Number(localStorage.getItem('telegram_crm_schema_version') || '1')\<close>\<close>

definition schemaVersion :: "local_storage \<Rightarrow> int" where
  "schemaVersion ls = (case ls_schema_version ls of None \<Rightarrow> 1 | Some v \<Rightarrow> v)"

text \<open>
  The effect that loads the collections at start (the API configuration, which goes to
  the server, is left out). It runs top to bottom; an exception ends it, and nothing after
  the throwing statement runs. After \<open>setManagers\<close> has taken an unreadable value, the
  updater of \<open>loadMockData\<close> receives that value as \<open>prev\<close> and throws a \<open>TypeError\<close> at
  \<open>list.length\<close> or \<open>list[0].id\<close>.
\<close>

definition initial_load :: "timestamp \<Rightarrow> local_storage \<times> app_state \<Rightarrow> load_error + local_storage \<times> app_state" where
  "initial_load now x =
     (let ls = fst x; st = snd x in
      if \<not> ls_logged_in ls then Inr x
      else
        let st1 = st\<lparr> st_accounts := load_guarded (ls_accounts ls) (st_accounts st) \<rparr>
        in case load_unguarded (ls_transfers ls) (st_transferRecords st1) of
             Inl e \<Rightarrow> Inl e
           | Inr trs \<Rightarrow>
               let st2 = st1\<lparr> st_transferRecords := trs \<rparr>;
                   st3 = st2\<lparr> st_keywords :=
                           (case ls_keywords ls of
                              Stored arr \<Rightarrow> List.map_filter (\<lambda>k. k) arr
                            | _ \<Rightarrow> st_keywords st2) \<rparr>;
                   st4 = st3\<lparr> st_managers := load_guarded (ls_managers ls) (st_managers st3) \<rparr>
               in if schemaVersion ls < 3
                  then (case migrateToManagers now (ls, st4) of
                          Inl el \<Rightarrow> Inl (fst el)
                        | Inr y \<Rightarrow> Inr y)
                  else
                    let st5 = st4\<lparr> st_chats := load_guarded (ls_chats ls) (st_chats st4) \<rparr>
                    in if ls_chats ls = Absent
                       then (if ls_managers ls = Unreadable then Inl TypeError
                             else Inr (loadMockData now (ls, st5)))
                       else Inr (ls, st5))"

text \<open>\<open>deleteManager\<close>\<close>

definition deleteManager :: "int \<Rightarrow> local_storage \<times> app_state \<Rightarrow> local_storage \<times> app_state" where
  "deleteManager ident x =
     (let ls = fst x; st = snd x;
          ms = filter (\<lambda>m. m_id m \<noteq> ident) (st_managers st);
          cs = filter (\<lambda>c. c_manager_id c \<noteq> Ref ident) (st_chats st);
          active = (active_manager_id (st_activeManager st) = Some ident)
      in (ls\<lparr> ls_managers := Stored ms, ls_chats := Stored cs \<rparr>,
          st\<lparr> st_managers := ms, st_chats := cs,
              st_activeManager := (if active then None else st_activeManager st),
              st_activeChat := (if active then None else st_activeChat st) \<rparr>))"

text \<open>Nothing stored, nothing loaded.\<close>

definition empty_storage :: local_storage where
  "empty_storage =
     \<lparr> ls_logged_in = True, ls_accounts = Absent, ls_transfers = Absent, ls_keywords = Absent,
       ls_managers = Absent, ls_chats = Absent, ls_schema_version = None \<rparr>"

definition empty_state :: app_state where
  "empty_state =
     \<lparr> st_accounts = [], st_transferRecords = [], st_keywords = [], st_managers = [],
       st_chats = [], st_activeManager = None, st_activeChat = None \<rparr>"



section \<open>Transfer records and the transfers form\<close>

text \<open>\<open>Omit<TransferRecord, 'id' | 'created_at'>\<close>\<close>

record transfer_data =
  td_supplier_account_id :: int
  td_client_account_id :: int
  td_status :: transfer_status
  td_notes :: "string option"

text \<open>\<open>Partial<TransferRecord>\<close>\<close>

record transfer_updates =
  tp_id :: "int option"
  tp_supplier_account_id :: "int option"
  tp_client_account_id :: "int option"
  tp_created_at :: "timestamp option"
  tp_status :: "transfer_status option"
  tp_notes :: "string option option"

definition addTransferRecord :: "timestamp \<Rightarrow> transfer_data \<Rightarrow> transfer_record list \<Rightarrow> transfer_record list" where
  "addTransferRecord now data prev =
     \<lparr> tr_id = now,
       tr_supplier_account_id = td_supplier_account_id data,
       tr_client_account_id = td_client_account_id data,
       tr_created_at = now,
       tr_status = td_status data,
       tr_notes = td_notes data \<rparr> # prev"

text \<open>\<open>{ ...r, ...updates }\<close>\<close>

definition apply_transfer_updates :: "transfer_record \<Rightarrow> transfer_updates \<Rightarrow> transfer_record" where
  "apply_transfer_updates r updates =
     \<lparr> tr_id = spread (tr_id r) (tp_id updates),
       tr_supplier_account_id = spread (tr_supplier_account_id r) (tp_supplier_account_id updates),
       tr_client_account_id = spread (tr_client_account_id r) (tp_client_account_id updates),
       tr_created_at = spread (tr_created_at r) (tp_created_at updates),
       tr_status = spread (tr_status r) (tp_status updates),
       tr_notes = spread (tr_notes r) (tp_notes updates) \<rparr>"

definition updateTransferRecord :: "int \<Rightarrow> transfer_updates \<Rightarrow> transfer_record list \<Rightarrow> transfer_record list" where
  "updateTransferRecord ident updates prev =
     map (\<lambda>r. if tr_id r = ident then apply_transfer_updates r updates else r) prev"

definition deleteTransferRecord :: "int \<Rightarrow> transfer_record list \<Rightarrow> transfer_record list" where
  "deleteTransferRecord ident prev = filter (\<lambda>r. tr_id r \<noteq> ident) prev"

text \<open>
  \<open>TransferFormState\<close>: an account id is a number or the empty string of an unset select
  (\<open>None\<close>).
\<close>

record transfer_form =
  tf_supplier_account_id :: "int option"
  tf_client_account_id :: "int option"
  tf_status :: transfer_status
  tf_notes :: string

text \<open>The state of \<open>TransfersManager\<close> that \<open>handleSubmit\<close> reads and writes.\<close>

record transfers_ui =
  ui_form :: transfer_form
  ui_editing :: "transfer_record option"
  ui_isFormOpen :: bool
  ui_formError :: "string option"

text \<open>A call of the store made by the form.\<close>

datatype store_call = CallAdd transfer_data | CallUpdate int transfer_updates

text \<open>
  The decision of \<open>handleSubmit\<close>: the error message it sets and returns on, or the store
  call it makes. \<open>!id\<close> holds of the empty string and of 0.
\<close>

definition handleSubmit_call :: "transfers_ui \<Rightarrow> string + store_call" where
  "handleSubmit_call ui =
     (case tf_supplier_account_id (ui_form ui) of
        None \<Rightarrow> Inl ''Vyberite klienta i postavshchika''
      | Some s \<Rightarrow>
          (case tf_client_account_id (ui_form ui) of
             None \<Rightarrow> Inl ''Vyberite klienta i postavshchika''
           | Some c \<Rightarrow>
               if s = 0 \<or> c = 0 then Inl ''Vyberite klienta i postavshchika''
               else if s = c then Inl ''Klient i postavshchik ne mogut sovpadat''
               else
                 (case ui_editing ui of
                    Some editing \<Rightarrow>
                      Inr (CallUpdate (tr_id editing)
                            \<lparr> tp_id = None, tp_supplier_account_id = Some s,
                              tp_client_account_id = Some c, tp_created_at = None,
                              tp_status = Some (tf_status (ui_form ui)),
                              tp_notes = Some (Some (tf_notes (ui_form ui))) \<rparr>)
                  | None \<Rightarrow>
                      Inr (CallAdd
                            \<lparr> td_supplier_account_id = s, td_client_account_id = c,
                              td_status = tf_status (ui_form ui),
                              td_notes = Some (tf_notes (ui_form ui)) \<rparr>))))"

definition perform :: "timestamp \<Rightarrow> store_call \<Rightarrow> transfer_record list \<Rightarrow> transfer_record list" where
  "perform now call transfers =
     (case call of
        CallAdd data \<Rightarrow> addTransferRecord now data transfers
      | CallUpdate ident updates \<Rightarrow> updateTransferRecord ident updates transfers)"

definition resetForm :: transfers_ui where
  "resetForm =
     \<lparr> ui_form = \<lparr> tf_supplier_account_id = None, tf_client_account_id = None,
                   tf_status = New, tf_notes = [] \<rparr>,
       ui_editing = None, ui_isFormOpen = False, ui_formError = None \<rparr>"

text \<open>\<open>handleSubmit\<close> on the form state and the transfers collection.\<close>

definition handleSubmit ::
  "timestamp \<Rightarrow> transfers_ui \<times> transfer_record list \<Rightarrow> transfers_ui \<times> transfer_record list" where
  "handleSubmit now x =
     (case handleSubmit_call (fst x) of
        Inl msg \<Rightarrow> ((fst x)\<lparr> ui_formError := Some msg \<rparr>, snd x)
      | Inr call \<Rightarrow> (resetForm, perform now call (snd x)))"

text \<open>The supplier and the client of a record differ.\<close>

definition distinct_parties :: "transfer_record \<Rightarrow> bool" where
  "distinct_parties r = (tr_supplier_account_id r \<noteq> tr_client_account_id r)"

definition example_transfer :: "int \<Rightarrow> int \<Rightarrow> int \<Rightarrow> transfer_record" where
  "example_transfer ident supplier client =
     \<lparr> tr_id = ident, tr_supplier_account_id = supplier, tr_client_account_id = client,
       tr_created_at = 0, tr_status = New, tr_notes = None \<rparr>"

definition example_form :: "int option \<Rightarrow> int option \<Rightarrow> transfer_record option \<Rightarrow> transfers_ui" where
  "example_form supplier client editing =
     \<lparr> ui_form = \<lparr> tf_supplier_account_id = supplier, tf_client_account_id = client,
                   tf_status = New, tf_notes = [] \<rparr>,
       ui_editing = editing, ui_isFormOpen = True, ui_formError = None \<rparr>"

section \<open>Chat members\<close>

record telegram_user =
  tu_id :: int
  tu_first_name :: string
  tu_last_name :: "string option"
  tu_username :: "string option"
  tu_photo_url :: "string option"
  tu_is_bot :: bool

record chat_member =
  cm_chat_id :: int
  cm_user_id :: int
  cm_added_at :: timestamp
  cm_user :: "telegram_user option"
  cm_role :: "member_role option"

text \<open>
  \<open>String(n)\<close> for an integer below \<open>1e21\<close> in magnitude: the decimal digits, with a sign
  for a negative one. From \<open>1e21\<close> on \<open>String(n)\<close> is in exponent notation, which this function
  does not produce; it is used for the generated names of a member only, and no property
  below reads them.
\<close>

function String_nat :: "nat \<Rightarrow> string" where
  "String_nat n =
     (if n < 10 then [char_of (48 + n)]
      else String_nat (n div 10) @ [char_of (48 + n mod 10)])"
  by pat_completeness auto
termination
  by (relation "measure (\<lambda>n. n)") auto

definition String_int :: "int \<Rightarrow> string" where
  "String_int i = (if i < 0 then CHR ''-'' # String_nat (nat (- i)) else String_nat (nat i))"

text \<open>\<open>s.slice(-2)\<close>\<close>

definition slice_last2 :: "string \<Rightarrow> string" where
  "slice_last2 s = drop (length s - 2) s"

text \<open>\<open>getMembersForChat\<close>\<close>

definition getMembersForChat :: "chat_member list \<Rightarrow> int \<Rightarrow> chat_member list" where
  "getMembersForChat chatMembers chatId = filter (\<lambda>m. cm_chat_id m = chatId) chatMembers"

text \<open>
  \<open>addMembersBulk\<close>: the new members collection (with an empty id list it returns before
  calling the setter). The set of the ids present for the chat is built from the
  collection only.
\<close>

definition addMembersBulk :: "timestamp \<Rightarrow> int \<Rightarrow> int list \<Rightarrow> chat_member list \<Rightarrow> chat_member list" where
  "addMembersBulk now chatId userIds prev =
     (if length userIds = 0 then prev
      else
        let existingSet = set (map cm_user_id (filter (\<lambda>m. cm_chat_id m = chatId) prev));
            additions =
              map (\<lambda>(idx, ident).
                     \<lparr> cm_chat_id = chatId,
                       cm_user_id = ident,
                       cm_added_at = now,
                       cm_user = Some \<lparr> tu_id = ident,
                                        tu_first_name = ''Imya'' @ String_int ident,
                                        tu_last_name = Some (''Familiya'' @ slice_last2 (String_int ident)),
                                        tu_username = Some (''user_'' @ String_int ident),
                                        tu_photo_url = None,
                                        tu_is_bot = False \<rparr>,
                       cm_role = Some (if idx = 0 \<and> length (filter (\<lambda>m. cm_chat_id m = chatId) prev) = 0
                                       then Creator else Member) \<rparr>)
                  (enumerate 0 (filter (\<lambda>ident. ident \<notin> existingSet) userIds))
        in prev @ additions)"

text \<open>The pair that identifies a member record.\<close>

definition member_key :: "chat_member \<Rightarrow> int \<times> int" where
  "member_key m = (cm_chat_id m, cm_user_id m)"

section \<open>Properties\<close>

subsection \<open>Creation by the identity reconciler\<close>

lemma find_user_None: "find (\<lambda>acc. a_user_id acc = s) prev = None \<longleftrightarrow> s \<notin> a_user_id ` set prev"
  by (auto simp: find_None_iff)

text \<open>
  C7. When no account with the sender's \<open>user_id\<close> exists, \<open>createAccountFromChat\<close>
  appends exactly one record. It has rating 1 and \<open>total_messages\<close> 1; a private chat gives
  category lead and source private, any other kind category other and source group; its
  first name is the chat's first name if that is non-empty, else the title, else the
  username, else the placeholder.
\<close>

theorem createAccountFromChat_new_contact:
  fixes now :: timestamp and activeManager managers ch senderId prev
  assumes "senderId \<notin> a_user_id ` set prev"
  defines "result \<equiv> createAccountFromChat now activeManager managers ch senderId prev"
  shows "result = prev @ [last result]
           \<and> a_user_id (last result) = senderId
           \<and> a_rating (last result) = 1
           \<and> a_total_messages (last result) = 1
           \<and> a_category (last result) = (if c_type ch = Private then Lead else Other)
           \<and> a_source (last result) = (if c_type ch = Private then SrcPrivate else SrcGroup)
           \<and> a_first_name (last result) =
               (if truthy_str (c_first_name ch) then the (c_first_name ch)
                else if truthy_str (c_title ch) then the (c_title ch)
                else if truthy_str (c_username ch) then the (c_username ch)
                else placeholder_name)"
proof -
  from assms(1) have nf: "find (\<lambda>acc. a_user_id acc = senderId) prev = None"
    by (simp add: find_user_None)
  have fn: "resolve_first_name ch =
               (if truthy_str (c_first_name ch) then the (c_first_name ch)
                else if truthy_str (c_title ch) then the (c_title ch)
                else if truthy_str (c_username ch) then the (c_username ch)
                else placeholder_name)"
    by (simp add: resolve_first_name_def str_or_def truthy_str_def split: option.splits)
  have r: "result = prev @ [newAccount now activeManager managers ch senderId]"
    using nf by (simp add: result_def createAccountFromChat_def)
  show ?thesis
    unfolding r using fn by (simp add: newAccount_def)
qed

theorem createAccountFromChat_new_contact_witness:
  "length (createAccountFromChat 1000 None [] (example_chat 42 Private (Some ''Ann'') None None) 42 []) = 1
   \<and> a_user_id (last (createAccountFromChat 1000 None [] (example_chat 42 Private (Some ''Ann'') None None) 42 [])) = 42
   \<and> a_first_name (last (createAccountFromChat 1000 None [] (example_chat 42 Private (Some ''Ann'') None None) 42 [])) = ''Ann''
   \<and> a_category (last (createAccountFromChat 1000 None [] (example_chat 42 Private (Some ''Ann'') None None) 42 [])) = Lead
   \<and> a_source (last (createAccountFromChat 1000 None [] (example_chat 42 Private (Some ''Ann'') None None) 42 [])) = SrcPrivate
   \<and> a_rating (last (createAccountFromChat 1000 None [] (example_chat 42 Private (Some ''Ann'') None None) 42 [])) = 1
   \<and> a_total_messages (last (createAccountFromChat 1000 None [] (example_chat 42 Private (Some ''Ann'') None None) 42 [])) = 1"
proof -
  have h: "(42::int) \<notin> a_user_id ` set []" by simp
  note t = createAccountFromChat_new_contact [OF h, of 1000 None "[]" "example_chat 42 Private (Some ''Ann'') None None"]
  have c: "c_type (example_chat 42 Private (Some ''Ann'') None None) = Private"
          "c_first_name (example_chat 42 Private (Some ''Ann'') None None) = Some ''Ann''"
    by (simp_all add: example_chat_def)
  have l: "length (createAccountFromChat 1000 None [] (example_chat 42 Private (Some ''Ann'') None None) 42 []) = 1"
    using t by (metis append_Nil length_Cons list.size(3) One_nat_def)
  show ?thesis using t l by (simp add: c truthy_str_def)
qed

subsection \<open>Repeated reconciliation and identity uniqueness\<close>

lemma touch_user_id [simp]: "a_user_id (touch now acc) = a_user_id acc"
  by (simp add: touch_def)

lemma touch_id [simp]: "a_id (touch now acc) = a_id acc"
  by (simp add: touch_def)

lemma ulp_below: "a < 9007199254740992 \<Longrightarrow> ulp a = 1"
  by (simp add: ulp.simps)

lemma ulp_at: "ulp 9007199254740992 = 2" and ulp_after: "ulp 9007199254740993 = 2"
  by (simp_all add: ulp.simps[of 9007199254740992] ulp.simps[of 9007199254740993] ulp_below)

lemma double_round_exact:
  assumes "\<bar>x\<bar> \<le> 9007199254740992"
  shows "double_round x = x"
proof (cases "\<bar>x\<bar> = 9007199254740992")
  case True
  then have "nat \<bar>x\<bar> = 9007199254740992" by simp
  then have "double_round x = sgn x * 9007199254740992"
    by (simp add: double_round_def ulp_at Let_def)
  with True show ?thesis by (simp add: abs_if sgn_if split: if_splits)
next
  case False
  with assms have "nat \<bar>x\<bar> < 9007199254740992" by simp
  then have "double_round x = sgn x * \<bar>x\<bar>"
    by (simp add: double_round_def ulp_below Let_def)
  then show ?thesis by (simp add: abs_if sgn_if)
qed

lemma double_round_first_gap: "double_round 9007199254740993 = 9007199254740992"
proof -
  have "nat \<bar>9007199254740993 :: int\<bar> = 9007199254740993" by simp
  then show ?thesis
    by (simp add: double_round_def ulp_after Let_def)
qed

lemma js_add_one:
  assumes "0 \<le> t" and "t \<le> 9007199254740992"
  shows "js_add t 1 = min (t + 1) 9007199254740992"
proof (cases "t = 9007199254740992")
  case True
  then show ?thesis by (simp add: js_add_def double_round_first_gap)
next
  case False
  with assms have "\<bar>t + 1\<bar> \<le> 9007199254740992" by simp
  then have "js_add t 1 = t + 1" unfolding js_add_def by (rule double_round_exact)
  with False assms show ?thesis by simp
qed

lemma js_add_one_exact:
  assumes "\<bar>t\<bar> < 9007199254740992"
  shows "js_add t 1 = t + 1"
proof -
  from assms have "\<bar>t + 1\<bar> \<le> 9007199254740992" by simp
  then show ?thesis unfolding js_add_def by (rule double_round_exact)
qed

lemma touch_total: "a_total_messages (touch now acc) = js_add (a_total_messages acc) 1"
  by (simp add: touch_def)

lemma touch_last_contact: "a_last_contact (touch now acc) = now"
  by (simp add: touch_def)

lemma touch_neq:
  assumes "\<bar>a_total_messages acc\<bar> < 9007199254740992"
  shows "touch now acc \<noteq> acc"
proof
  assume "touch now acc = acc"
  then have "a_total_messages (touch now acc) = a_total_messages acc" by simp
  then show False using js_add_one_exact[OF assms] by (simp add: touch_total)
qed

lemma create_user_ids_found:
  assumes "find (\<lambda>acc. a_user_id acc = s) prev = Some e"
  shows "map a_user_id (createAccountFromChat now am ms ch s prev) = map a_user_id prev"
  using assms by (simp add: createAccountFromChat_def comp_def)

lemma find_append_case:
  "find P (xs @ ys) = (case find P xs of None \<Rightarrow> find P ys | Some x \<Rightarrow> Some x)"
  by (induction xs) auto

lemma find_map_preserve:
  "(\<And>x. P (f x) = P x) \<Longrightarrow> find P (map f xs) = map_option f (find P xs)"
  by (induction xs) auto

lemma create_finds:
  "\<exists>e. find (\<lambda>acc. a_user_id acc = s) (createAccountFromChat now am ms ch s prev) = Some e \<and> a_user_id e = s"
proof (cases "find (\<lambda>acc. a_user_id acc = s) prev")
  case None
  then show ?thesis
    by (simp add: createAccountFromChat_def find_append_case newAccount_def)
next
  case (Some e)
  then have "a_user_id e = s" by (auto simp: find_Some_iff)
  with Some show ?thesis
    by (simp add: createAccountFromChat_def find_map_preserve)
qed

lemma create_twice_shape:
  "\<exists>e. find (\<lambda>acc. a_user_id acc = s) (createAccountFromChat t1 am ms ch s prev) = Some e \<and>
     createAccountFromChat t2 am2 ms2 ch2 s (createAccountFromChat t1 am ms ch s prev) =
     map (\<lambda>acc. if a_id acc = a_id e then touch t2 acc else acc) (createAccountFromChat t1 am ms ch s prev)"
proof -
  obtain e where e: "find (\<lambda>acc. a_user_id acc = s) (createAccountFromChat t1 am ms ch s prev) = Some e"
    using create_finds by blast
  show ?thesis using e by (simp add: createAccountFromChat_def[of t2])
qed

lemma map_touch_neq:
  assumes "e \<in> set xs" and "\<bar>a_total_messages e\<bar> < 9007199254740992"
  shows "map (\<lambda>acc. if a_id acc = a_id e then touch t acc else acc) xs \<noteq> xs"
proof
  assume "map (\<lambda>acc. if a_id acc = a_id e then touch t acc else acc) xs = xs"
  then have "\<forall>x\<in>set xs. (if a_id x = a_id e then touch t x else x) = x"
    by (simp add: map_idI map_eq_conv[where g="\<lambda>x. x", simplified])
  with assms(1) have "touch t e = e" by auto
  then show False using touch_neq[OF assms(2)] by simp
qed

lemma create_new_found:
  assumes "s \<notin> a_user_id ` set prev"
  shows "getAccountByUserId (createAccountFromChat now am ms ch s prev) s = Some (newAccount now am ms ch s)"
proof -
  from assms have "find (\<lambda>acc. a_user_id acc = s) prev = None" by (simp add: find_user_None)
  then show ?thesis
    by (simp add: getAccountByUserId_def createAccountFromChat_def find_append_case newAccount_def)
qed

text \<open>
  C2 (as amended). A second \<open>createAccountFromChat\<close> call for the same sender, at the same
  or a later clock reading, creates no further record (the \<open>user_id\<close>s of the collection are
  the same), but it is applied again: the record found for the sender, and every record
  sharing its \<open>id\<close>, gets \<open>last_contact\<close> set to the time of the second call and 1 added to
  \<open>total_messages\<close>. While the count is below \<open>2^53\<close> in magnitude the addition is exact, so
  the count grows by 1 and the collection changes (from there on the double no longer
  counts); for a sender that was not in the collection the count is 2 after the second
  call. Repetition is prevented only by the caller, and only within one mount of
  \<open>ChatMessages\<close>: a second run of its effect for the same chat changes nothing, but after
  the chat was closed (the component unmounted) opening it again runs the reconciler again.
\<close>

theorem createAccountFromChat_repeat:
  fixes t1 t2 t3 :: timestamp and am ms ch s prev processed
  defines "once \<equiv> createAccountFromChat t1 am ms ch s prev"
  defines "twice \<equiv> createAccountFromChat t2 am ms ch s once"
  shows "map a_user_id twice = map a_user_id once
       \<and> getAccountByUserId once s \<noteq> None
       \<and> twice = map (\<lambda>acc. if a_id acc = a_id (the (getAccountByUserId once s)) then touch t2 acc else acc) once
       \<and> a_last_contact (the (getAccountByUserId twice s)) = t2
       \<and> a_total_messages (the (getAccountByUserId twice s))
           = js_add (a_total_messages (the (getAccountByUserId once s))) 1
       \<and> (\<bar>a_total_messages (the (getAccountByUserId once s))\<bar> < 9007199254740992 \<longrightarrow>
            a_total_messages (the (getAccountByUserId twice s))
              = a_total_messages (the (getAccountByUserId once s)) + 1
          \<and> twice \<noteq> once)
       \<and> (s \<notin> a_user_id ` set prev \<longrightarrow> a_total_messages (the (getAccountByUserId twice s)) = 2)
       \<and> chat_opened t2 am ms (Some ch) (chat_opened t1 am ms (Some ch) (processed, prev))
           = chat_opened t1 am ms (Some ch) (processed, prev)
       \<and> chat_opened t3 am ms (Some ch)
            (chat_opened t2 am ms None (chat_opened t1 am ms (Some ch) (processed, prev)))
           = ({c_id ch}, createAccountFromChat t3 am ms ch (c_id ch)
                            (snd (chat_opened t1 am ms (Some ch) (processed, prev))))"
proof -
  obtain e where e: "find (\<lambda>acc. a_user_id acc = s) once = Some e"
    and tw: "twice = map (\<lambda>acc. if a_id acc = a_id e then touch t2 acc else acc) once"
    unfolding once_def twice_def using create_twice_shape by blast
  have g: "getAccountByUserId once s = Some e"
    using e by (simp add: getAccountByUserId_def)
  have mem: "e \<in> set once"
    using e by (auto simp: find_Some_iff)
  have ids: "map a_user_id twice = map a_user_id once"
    unfolding tw by (simp add: comp_def)
  have g2: "getAccountByUserId twice s = Some (touch t2 e)"
    unfolding getAccountByUserId_def tw
    using e by (simp add: find_map_preserve)
  have exact: "a_total_messages (touch t2 e) = a_total_messages e + 1 \<and> twice \<noteq> once"
    if b: "\<bar>a_total_messages e\<bar> < 9007199254740992"
  proof -
    have "twice \<noteq> once" unfolding tw using mem b by (rule map_touch_neq)
    then show ?thesis using js_add_one_exact[OF b] by (simp add: touch_total)
  qed
  have fresh: "a_total_messages (touch t2 e) = 2" if "s \<notin> a_user_id ` set prev"
  proof -
    from create_new_found[OF that, of t1 am ms ch] g have "e = newAccount t1 am ms ch s"
      by (simp add: once_def)
    then have "a_total_messages e = 1" by (simp add: newAccount_def)
    then show ?thesis by (simp add: touch_total js_add_one_exact)
  qed
  have guard: "chat_opened t2 am ms (Some ch) (chat_opened t1 am ms (Some ch) (processed, prev))
           = chat_opened t1 am ms (Some ch) (processed, prev)"
    by (simp add: chat_opened_def)
  have reopen: "chat_opened t3 am ms (Some ch)
            (chat_opened t2 am ms None (chat_opened t1 am ms (Some ch) (processed, prev)))
           = ({c_id ch}, createAccountFromChat t3 am ms ch (c_id ch)
                            (snd (chat_opened t1 am ms (Some ch) (processed, prev))))"
    by (simp add: chat_opened_def)
  show ?thesis
    using ids g tw g2 exact fresh guard reopen by (simp add: touch_total touch_last_contact)
qed

lemma apply_updates_user_id:
  "a_user_id (apply_updates now account updates) = spread (a_user_id account) (u_user_id updates)"
  by (simp add: apply_updates_def)

lemma distinct_reassign:
  assumes "distinct (map f xs)" and "length (filter P xs) \<le> 1"
    and "v \<notin> f ` set (filter (\<lambda>x. \<not> P x) xs)"
  shows "distinct (map (\<lambda>x. if P x then v else f x) xs)"
  using assms
proof (induction xs)
  case Nil
  then show ?case by simp
next
  case (Cons x xs)
  show ?case
  proof (cases "P x")
    case True
    with Cons.prems(2) have none: "filter P xs = []" by simp
    then have np: "\<forall>y\<in>set xs. \<not> P y" by (simp add: filter_empty_conv)
    then have m: "map (\<lambda>x. if P x then v else f x) xs = map f xs"
      by (intro map_cong) auto
    from np have "filter (\<lambda>x. \<not> P x) xs = xs" by simp
    with Cons.prems(3) True have "v \<notin> f ` set xs" by simp
    with Cons.prems(1) True show ?thesis by (simp add: m)
  next
    case False
    with Cons.prems have ih: "distinct (map (\<lambda>x. if P x then v else f x) xs)"
      by (intro Cons.IH) auto
    from False Cons.prems(3) have "f x \<noteq> v" by auto
    moreover from Cons.prems(1) have "f x \<notin> f ` set xs" by simp
    ultimately have "f x \<notin> set (map (\<lambda>x. if P x then v else f x) xs)" by auto
    with ih False show ?thesis by simp
  qed
qed

lemma op_preserves_distinct:
  assumes "distinct (map a_user_id accs)" and "op_ok op accs"
  shows "distinct (map a_user_id (apply_op op accs))"
proof (cases op)
  case (AddAccount now am ms account)
  with assms show ?thesis by (simp add: addAccount_def)
next
  case (CreateAccountFromChat now am ms ch senderId)
  show ?thesis
  proof (cases "find (\<lambda>acc. a_user_id acc = senderId) accs")
    case None
    then have "senderId \<notin> a_user_id ` set accs" by (simp add: find_user_None)
    with assms None CreateAccountFromChat show ?thesis
      by (simp add: createAccountFromChat_def newAccount_def)
  next
    case (Some e)
    with assms CreateAccountFromChat show ?thesis
      by (simp add: create_user_ids_found)
  qed
next
  case (UpdateAccount now ident updates)
  show ?thesis
  proof (cases "u_user_id updates")
    case None
    have "map a_user_id (updateAccount now ident updates accs) = map a_user_id accs"
      by (simp add: updateAccount_def comp_def apply_updates_user_id spread_def None cong: if_cong)
    with assms UpdateAccount show ?thesis by simp
  next
    case (Some v)
    have m: "map a_user_id (updateAccount now ident updates accs)
           = map (\<lambda>a. if a_id a = ident then v else a_user_id a) accs"
      by (simp add: updateAccount_def comp_def apply_updates_user_id spread_def Some cong: if_cong)
    from assms(2) UpdateAccount Some
    consider "filter (\<lambda>a. a_id a = ident) accs = []"
      | "length (filter (\<lambda>a. a_id a = ident) accs) = 1"
        "v \<notin> a_user_id ` set (filter (\<lambda>a. a_id a \<noteq> ident) accs)"
      by auto
    then have "distinct (map (\<lambda>a. if a_id a = ident then v else a_user_id a) accs)"
    proof cases
      case 1
      then have "\<forall>a\<in>set accs. a_id a \<noteq> ident" by (simp add: filter_empty_conv)
      then have "map (\<lambda>a. if a_id a = ident then v else a_user_id a) accs = map a_user_id accs"
        by (intro map_cong) auto
      then show ?thesis using assms(1) by (simp only:)
    next
      case 2
      then show ?thesis using assms(1) by (intro distinct_reassign) simp_all
    qed
    with m UpdateAccount show ?thesis by simp
  qed
next
  case (DeleteAccount ident)
  with assms show ?thesis by (simp add: deleteAccount_def distinct_map_filter)
qed

lemma run_ops_distinct:
  "distinct (map a_user_id accs) \<Longrightarrow> ops_ok ops accs \<Longrightarrow> distinct (map a_user_id (run_ops ops accs))"
  unfolding run_ops_def
  by (induction ops arbitrary: accs) (simp_all add: op_preserves_distinct)

lemma upserts_single:
  assumes "a_user_id r = s" and "0 \<le> a_total_messages r" and "a_total_messages r \<le> 9007199254740992"
  shows "map a_user_id (run_ops (upserts s calls) [r]) = [s]
       \<and> map a_total_messages (run_ops (upserts s calls) [r])
           = [min (a_total_messages r + int (length calls)) 9007199254740992]"
  using assms
proof (induction calls arbitrary: r)
  case Nil
  then show ?case by (simp add: run_ops_def upserts_def)
next
  case (Cons c calls)
  obtain now am ms ch where c: "c = (now, am, ms, ch)" by (cases c) auto
  have step: "createAccountFromChat now am ms ch s [r] = [touch now r]"
    using Cons.prems by (simp add: createAccountFromChat_def)
  have t: "a_total_messages (touch now r) = min (a_total_messages r + 1) 9007199254740992"
    using js_add_one[OF Cons.prems(2,3)] by (simp add: touch_total)
  have "a_user_id (touch now r) = s" using Cons.prems by simp
  moreover have "0 \<le> a_total_messages (touch now r)"
    and "a_total_messages (touch now r) \<le> 9007199254740992"
    using Cons.prems(2) by (simp_all add: t)
  ultimately have "map a_user_id (run_ops (upserts s calls) [touch now r]) = [s]
       \<and> map a_total_messages (run_ops (upserts s calls) [touch now r])
           = [min (a_total_messages (touch now r) + int (length calls)) 9007199254740992]"
    by (rule Cons.IH)
  then show ?case
    using step by (simp add: run_ops_def upserts_def c t min_def)
qed

text \<open>
  C1 (as amended). Starting from the empty collection, after any sequence of
  \<open>createAccountFromChat\<close> calls, \<open>deleteAccount\<close> calls, \<open>addAccount\<close> calls for a \<open>user_id\<close> not
  yet present, and \<open>updateAccount\<close> calls that do not move a record onto the \<open>user_id\<close> of
  another record (among them every update that carries no \<open>user_id\<close> or the record's own),
  no two records share a \<open>user_id\<close>. After n (one or more) \<open>createAccountFromChat\<close> calls for
  the same sender id on the empty collection there is exactly one record, it has that
  \<open>user_id\<close>, and its \<open>total_messages\<close> is n, the number of calls (every call counts, a
  repeated one too), up to \<open>2^53\<close>, where the double stops counting.
\<close>

theorem accounts_identity_unique:
  "(ops_ok ops [] \<longrightarrow> distinct (map a_user_id (run_ops ops [])))
   \<and> (calls \<noteq> [] \<longrightarrow>
        map a_user_id (run_ops (upserts s calls) []) = [s]
      \<and> map a_total_messages (run_ops (upserts s calls) [])
          = [min (int (length calls)) 9007199254740992])"
proof -
  have a: "ops_ok ops [] \<longrightarrow> distinct (map a_user_id (run_ops ops []))"
    using run_ops_distinct[of "[]" ops] by simp
  have b: "map a_user_id (run_ops (upserts s calls) []) = [s]
      \<and> map a_total_messages (run_ops (upserts s calls) [])
          = [min (int (length calls)) 9007199254740992]"
    if "calls \<noteq> []"
  proof -
    from that obtain c cs where cs: "calls = c # cs" by (cases calls) auto
    obtain now am ms ch where c: "c = (now, am, ms, ch)" by (cases c) auto
    have first: "createAccountFromChat now am ms ch s [] = [newAccount now am ms ch s]"
      by (simp add: createAccountFromChat_def)
    have u: "a_user_id (newAccount now am ms ch s) = s"
      and t: "a_total_messages (newAccount now am ms ch s) = 1"
      by (simp_all add: newAccount_def)
    have r: "run_ops (upserts s calls) [] = run_ops (upserts s cs) [newAccount now am ms ch s]"
      by (simp add: run_ops_def upserts_def cs c first)
    show ?thesis
      unfolding r using upserts_single[OF u, of cs] by (simp add: cs t add.commute)
  qed
  show ?thesis using a b by blast
qed

text \<open>
  The claim as stated fails: two \<open>addAccount\<close> calls with the same \<open>user_id\<close> leave two records
  with it; an \<open>updateAccount\<close> whose updates carry the \<open>user_id\<close> of another record makes two
  records share it; and two identical \<open>createAccountFromChat\<close> calls (one distinct patch)
  give \<open>total_messages\<close> 2.
\<close>

theorem accounts_identity_unique_counterexample:
  "\<not> distinct (map a_user_id (run_ops [AddAccount 1 None [] (example_account 0 42),
                                          AddAccount 2 None [] (example_account 0 42)] []))
   \<and> \<not> distinct (map a_user_id (run_ops
          [CreateAccountFromChat 1 None [] (example_chat 41 Private (Some ''Ann'') None None) 41,
           CreateAccountFromChat 2 None [] (example_chat 42 Private (Some ''Bob'') None None) 42,
           UpdateAccount 3 2 (no_updates\<lparr> u_user_id := Some 41 \<rparr>)] []))
   \<and> map a_total_messages (run_ops (upserts 42
          [(1, None, [], example_chat 42 Private (Some ''Ann'') None None),
           (1, None, [], example_chat 42 Private (Some ''Ann'') None None)]) []) = [2]
   \<and> length (remdups [(1::int, None :: manager option, [] :: manager list, example_chat 42 Private (Some ''Ann'') None None),
           (1, None, [], example_chat 42 Private (Some ''Ann'') None None)]) = 1"
  by (simp add: run_ops_def upserts_def addAccount_def createAccountFromChat_def updateAccount_def
      apply_updates_def spread_def no_updates_def example_account_def newAccount_def touch_def
      js_add_one_exact)

theorem createAccountFromChat_repeat_witness:
  "\<bar>a_total_messages (the (getAccountByUserId
        (createAccountFromChat 1000 None [] (example_chat 42 Private (Some ''Ann'') None None) 42 []) 42))\<bar>
      < 9007199254740992
   \<and> (42 :: int) \<notin> a_user_id ` set []
   \<and> map a_user_id (createAccountFromChat 1000 None [] (example_chat 42 Private (Some ''Ann'') None None) 42
        (createAccountFromChat 1000 None [] (example_chat 42 Private (Some ''Ann'') None None) 42 []))
     = map a_user_id (createAccountFromChat 1000 None [] (example_chat 42 Private (Some ''Ann'') None None) 42 [])
   \<and> a_total_messages (the (getAccountByUserId (createAccountFromChat 1000 None [] (example_chat 42 Private (Some ''Ann'') None None) 42
        (createAccountFromChat 1000 None [] (example_chat 42 Private (Some ''Ann'') None None) 42 [])) 42)) = 2
   \<and> createAccountFromChat 1000 None [] (example_chat 42 Private (Some ''Ann'') None None) 42
        (createAccountFromChat 1000 None [] (example_chat 42 Private (Some ''Ann'') None None) 42 [])
       \<noteq> createAccountFromChat 1000 None [] (example_chat 42 Private (Some ''Ann'') None None) 42 []
   \<and> chat_opened 1000 None [] (Some (example_chat 42 Private (Some ''Ann'') None None))
         (chat_opened 1000 None [] (Some (example_chat 42 Private (Some ''Ann'') None None)) ({}, []))
       = chat_opened 1000 None [] (Some (example_chat 42 Private (Some ''Ann'') None None)) ({}, [])"
proof -
  have b: "\<bar>a_total_messages (the (getAccountByUserId
        (createAccountFromChat 1000 None [] (example_chat 42 Private (Some ''Ann'') None None) 42 []) 42))\<bar>
      < 9007199254740992"
    by (simp add: createAccountFromChat_def getAccountByUserId_def newAccount_def)
  have f: "(42 :: int) \<notin> a_user_id ` set []" by simp
  show ?thesis
    using b f createAccountFromChat_repeat [where ?t1.0 = 1000 and ?t2.0 = 1000 and am = None and ms = "[]"
      and ch = "example_chat 42 Private (Some ''Ann'') None None" and s = 42 and prev = "[]" and processed = "{}"]
    by meson
qed

text \<open>
  The claim as stated fails: called twice with the same chat, sender and clock reading on
  an empty collection, the second call changes the collection, \<open>total_messages\<close> goes from
  1 to 2, and a later second call moves \<open>last_contact\<close>.
\<close>

theorem createAccountFromChat_repeat_counterexample:
  "createAccountFromChat 1000 None [] (example_chat 42 Private (Some ''Ann'') None None) 42
        (createAccountFromChat 1000 None [] (example_chat 42 Private (Some ''Ann'') None None) 42 [])
     \<noteq> createAccountFromChat 1000 None [] (example_chat 42 Private (Some ''Ann'') None None) 42 []
   \<and> map a_total_messages (createAccountFromChat 1000 None [] (example_chat 42 Private (Some ''Ann'') None None) 42 []) = [1]
   \<and> map a_total_messages (createAccountFromChat 1000 None [] (example_chat 42 Private (Some ''Ann'') None None) 42
        (createAccountFromChat 1000 None [] (example_chat 42 Private (Some ''Ann'') None None) 42 [])) = [2]
   \<and> map a_last_contact (createAccountFromChat 2000 None [] (example_chat 42 Private (Some ''Ann'') None None) 42
        (createAccountFromChat 1000 None [] (example_chat 42 Private (Some ''Ann'') None None) 42 [])) = [2000]"
proof -
  have one: "map a_total_messages (createAccountFromChat 1000 None [] (example_chat 42 Private (Some ''Ann'') None None) 42 []) = [1]"
    by (simp add: createAccountFromChat_def newAccount_def)
  have two: "map a_total_messages (createAccountFromChat 1000 None [] (example_chat 42 Private (Some ''Ann'') None None) 42
        (createAccountFromChat 1000 None [] (example_chat 42 Private (Some ''Ann'') None None) 42 [])) = [2]"
    by (simp add: createAccountFromChat_def newAccount_def touch_def js_add_one_exact)
  have three: "map a_last_contact (createAccountFromChat 2000 None [] (example_chat 42 Private (Some ''Ann'') None None) 42
        (createAccountFromChat 1000 None [] (example_chat 42 Private (Some ''Ann'') None None) 42 [])) = [2000]"
    by (simp add: createAccountFromChat_def newAccount_def touch_def)
  from one two have "createAccountFromChat 1000 None [] (example_chat 42 Private (Some ''Ann'') None None) 42
        (createAccountFromChat 1000 None [] (example_chat 42 Private (Some ''Ann'') None None) 42 [])
     \<noteq> createAccountFromChat 1000 None [] (example_chat 42 Private (Some ''Ann'') None None) 42 []"
    by auto
  with one two three show ?thesis by blast
qed

theorem accounts_identity_unique_witness:
  "ops_ok [CreateAccountFromChat 1 None [] (example_chat 41 Private (Some ''Ann'') None None) 41,
           CreateAccountFromChat 2 None [] (example_chat 42 Private (Some ''Bob'') None None) 42,
           AddAccount 3 None [] (example_account 0 43),
           UpdateAccount 4 2 (no_updates\<lparr> u_user_id := Some 42, u_first_name := Some ''Rob'' \<rparr>),
           CreateAccountFromChat 5 None [] (example_chat 42 Private (Some ''Bob'') None None) 42,
           UpdateAccount 6 3 (no_updates\<lparr> u_user_id := Some 44 \<rparr>),
           DeleteAccount 1] []
   \<and> distinct (map a_user_id (run_ops
          [CreateAccountFromChat 1 None [] (example_chat 41 Private (Some ''Ann'') None None) 41,
           CreateAccountFromChat 2 None [] (example_chat 42 Private (Some ''Bob'') None None) 42,
           AddAccount 3 None [] (example_account 0 43),
           UpdateAccount 4 2 (no_updates\<lparr> u_user_id := Some 42, u_first_name := Some ''Rob'' \<rparr>),
           CreateAccountFromChat 5 None [] (example_chat 42 Private (Some ''Bob'') None None) 42,
           UpdateAccount 6 3 (no_updates\<lparr> u_user_id := Some 44 \<rparr>),
           DeleteAccount 1] []))
   \<and> map a_user_id (run_ops (upserts 42
          [(1, None, [], example_chat 42 Private (Some ''Ann'') None None),
           (2, None, [], example_chat 42 Private (Some ''Ann'') None None),
           (2, None, [], example_chat 42 Private (Some ''Ann'') None None)]) []) = [42]
   \<and> map a_total_messages (run_ops (upserts 42
          [(1, None, [], example_chat 42 Private (Some ''Ann'') None None),
           (2, None, [], example_chat 42 Private (Some ''Ann'') None None),
           (2, None, [], example_chat 42 Private (Some ''Ann'') None None)]) []) = [3]"
proof -
  have ok: "ops_ok [CreateAccountFromChat 1 None [] (example_chat 41 Private (Some ''Ann'') None None) 41,
           CreateAccountFromChat 2 None [] (example_chat 42 Private (Some ''Bob'') None None) 42,
           AddAccount 3 None [] (example_account 0 43),
           UpdateAccount 4 2 (no_updates\<lparr> u_user_id := Some 42, u_first_name := Some ''Rob'' \<rparr>),
           CreateAccountFromChat 5 None [] (example_chat 42 Private (Some ''Bob'') None None) 42,
           UpdateAccount 6 3 (no_updates\<lparr> u_user_id := Some 44 \<rparr>),
           DeleteAccount 1] []"
    by (simp add: createAccountFromChat_def newAccount_def addAccount_def example_account_def
        no_updates_def updateAccount_def apply_updates_def spread_def touch_def)
  have ne: "[(1::int, None :: manager option, [] :: manager list, example_chat 42 Private (Some ''Ann'') None None),
           (2, None, [], example_chat 42 Private (Some ''Ann'') None None),
           (2, None, [], example_chat 42 Private (Some ''Ann'') None None)] \<noteq> []" by simp
  show ?thesis
    using ok ne accounts_identity_unique [of
       "[CreateAccountFromChat 1 None [] (example_chat 41 Private (Some ''Ann'') None None) 41,
           CreateAccountFromChat 2 None [] (example_chat 42 Private (Some ''Bob'') None None) 42,
           AddAccount 3 None [] (example_account 0 43),
           UpdateAccount 4 2 (no_updates\<lparr> u_user_id := Some 42, u_first_name := Some ''Rob'' \<rparr>),
           CreateAccountFromChat 5 None [] (example_chat 42 Private (Some ''Bob'') None None) 42,
           UpdateAccount 6 3 (no_updates\<lparr> u_user_id := Some 44 \<rparr>),
           DeleteAccount 1]"
       "[(1, None, [], example_chat 42 Private (Some ''Ann'') None None),
           (2, None, [], example_chat 42 Private (Some ''Ann'') None None),
           (2, None, [], example_chat 42 Private (Some ''Ann'') None None)]" 42]
    by simp
qed

subsection \<open>Username history\<close>

lemma history_of_apply_updates [simp]:
  "history_of (apply_updates now account updates) = track_username now account updates"
  by (simp add: history_of_def apply_updates_def)

lemma a_username_apply_updates:
  "a_username (apply_updates now account updates) = spread (a_username account) (u_username updates)"
  by (simp add: apply_updates_def)

lemma change_step:
  assumes "is_username_change account updates"
  shows "history_of (apply_updates now account updates) =
           take 20 (\<lparr> h_username = str_or (a_username account) ''(empty)'', h_changed_at = now \<rparr>
                      # history_of account)"
    and "\<exists>u. a_username (apply_updates now account updates) = Some u \<and> u \<noteq> [] \<and> Some u \<noteq> a_username account"
proof -
  from assms obtain u where u: "u_username updates = Some (Some u)" "u \<noteq> []" "Some u \<noteq> a_username account"
    by (auto simp: is_username_change_def split: option.splits)
  show "history_of (apply_updates now account updates) =
           take 20 (\<lparr> h_username = str_or (a_username account) ''(empty)'', h_changed_at = now \<rparr>
                      # history_of account)"
    using u by (simp add: track_username_def)
  show "\<exists>u. a_username (apply_updates now account updates) = Some u \<and> u \<noteq> [] \<and> Some u \<noteq> a_username account"
    using u by (simp add: a_username_apply_updates spread_def)
qed

lemma take_append_take: "take n (xs @ take n ys) = take n (xs @ ys)"
  by (simp add: min_def)

lemma history_apply_changes:
  "username_changes account cs \<Longrightarrow> cs \<noteq> [] \<Longrightarrow>
     history_of (apply_changes account cs) = take 20 (rev (pushed account cs) @ history_of account)"
proof (induction cs arbitrary: account)
  case Nil
  then show ?case by simp
next
  case (Cons c cs)
  obtain now updates where c: "c = (now, updates)" by (cases c) auto
  from Cons.prems c have ch: "is_username_change account updates"
    and rest: "username_changes (apply_updates now account updates) cs" by simp_all
  have unfold: "apply_changes account (c # cs) = apply_changes (apply_updates now account updates) cs"
    by (simp add: apply_changes_def c)
  show ?case
  proof (cases "cs = []")
    case True
    then show ?thesis
      using change_step(1)[OF ch, of now] by (simp add: apply_changes_def c del: history_of_apply_updates)
  next
    case False
    have "history_of (apply_changes account (c # cs)) =
          take 20 (rev (pushed (apply_updates now account updates) cs)
                      @ history_of (apply_updates now account updates))"
      unfolding unfold by (rule Cons.IH[OF rest False])
    also have "\<dots> = take 20 (rev (pushed (apply_updates now account updates) cs)
                      @ (\<lparr> h_username = str_or (a_username account) ''(empty)'', h_changed_at = now \<rparr>
                          # history_of account))"
      unfolding change_step(1)[OF ch] by (rule take_append_take)
    also have "rev (pushed (apply_updates now account updates) cs)
                      @ (\<lparr> h_username = str_or (a_username account) ''(empty)'', h_changed_at = now \<rparr>
                          # history_of account) = rev (pushed account (c # cs)) @ history_of account"
      by (simp add: c)
    finally show ?thesis .
  qed
qed

lemma pushed_times: "map h_changed_at (pushed account cs) = map fst cs"
  by (induction cs arbitrary: account) auto

lemma apply_changes_snoc:
  "apply_changes account (cs @ [(now, updates)]) = apply_updates now (apply_changes account cs) updates"
  by (simp add: apply_changes_def)

lemma username_changes_snoc:
  "username_changes account (cs @ [(now, updates)]) \<longleftrightarrow>
     username_changes account cs \<and> is_username_change (apply_changes account cs) updates"
proof (induction cs arbitrary: account)
  case Nil
  show ?case by (simp add: apply_changes_def)
next
  case (Cons c cs)
  obtain t u where c: "c = (t, u)" by (cases c) auto
  show ?case using Cons.IH[of "apply_updates t account u"]
    by (simp add: c apply_changes_def)
qed

lemma sorted_desc_history:
  "sorted_wrt (\<lambda>x y. x \<ge> y) (map h_changed_at (take 20 (rev (pushed account cs) @ history_of account)))
     \<longleftrightarrow> stamps_in_order account cs"
proof -
  define kc where "kc = drop (length cs - 20) cs"
  define ks where "ks = take (20 - length cs) (history_of account)"
  have "map h_changed_at (rev (pushed account cs) @ history_of account)
          = rev (map fst cs) @ map h_changed_at (history_of account)"
    by (simp add: pushed_times rev_map[symmetric])
  then have "map h_changed_at (take 20 (rev (pushed account cs) @ history_of account))
          = take 20 (rev (map fst cs) @ map h_changed_at (history_of account))"
    by (simp only: take_map[symmetric])
  also have "\<dots> = take 20 (rev (map fst cs)) @ map h_changed_at ks"
    by (simp add: ks_def take_map)
  also have "take 20 (rev (map fst cs)) = rev (map fst kc)"
    by (simp add: kc_def take_rev drop_map)
  finally have e: "map h_changed_at (take 20 (rev (pushed account cs) @ history_of account))
          = rev (map fst kc) @ map h_changed_at ks" .
  have r: "sorted_wrt (\<lambda>x y. x \<ge> y) (rev (map fst kc)) \<longleftrightarrow> sorted (map fst kc)"
    by (simp add: sorted_wrt_rev)
  have c: "stamps_in_order account cs \<longleftrightarrow>
             sorted (map fst kc) \<and> sorted_wrt (\<lambda>x y. x \<ge> y) (map h_changed_at ks)
             \<and> (\<forall>e\<in>set ks. \<forall>c\<in>set kc. h_changed_at e \<le> fst c)"
    by (simp add: stamps_in_order_def Let_def kc_def ks_def list_all_iff)
  show ?thesis
    unfolding e c sorted_wrt_append r by auto
qed

text \<open>
  C3 (as amended). After one or more username changes applied to an account by
  \<open>updateAccount\<close>, \<open>username_history\<close> has at most 20 entries and is ordered most recent
  first by position: it consists of the usernames stored before each change, the most
  recent change first, followed by the history the account had, cut to 20. Its \<open>changed_at\<close>
  stamps descend exactly when, among the entries that remain, the clock readings of the
  changes do not decrease, the stamps of the stored entries descend and no stored entry is
  later than a change. Its first entry holds the username that was stored just before the
  last change (the mark \<open>(empty)\<close> if there was none), stamped with the time of the last
  change, and differs from the current username unless the current username is the
  string \<open>(empty)\<close>. Older entries may equal the current username.
\<close>

theorem username_history_after_changes:
  assumes "cs \<noteq> []" and "username_changes account cs"
  defines "result \<equiv> apply_changes account cs"
  shows "length (history_of result) \<le> 20
       \<and> history_of result = take 20 (rev (pushed account cs) @ history_of account)
       \<and> (sorted_wrt (\<lambda>x y. x \<ge> y) (map h_changed_at (history_of result))
            \<longleftrightarrow> stamps_in_order account cs)
       \<and> history_of result \<noteq> []
       \<and> h_username (hd (history_of result)) =
             str_or (a_username (apply_changes account (butlast cs))) ''(empty)''
       \<and> h_changed_at (hd (history_of result)) = fst (last cs)
       \<and> (a_username result \<noteq> Some ''(empty)'' \<longrightarrow>
             Some (h_username (hd (history_of result))) \<noteq> a_username result)"
proof -
  have st: "history_of result = take 20 (rev (pushed account cs) @ history_of account)"
    unfolding result_def using assms(2,1) by (rule history_apply_changes)
  have len: "length (history_of result) \<le> 20" unfolding st by simp
  have srt: "sorted_wrt (\<lambda>x y. x \<ge> y) (map h_changed_at (history_of result))
            \<longleftrightarrow> stamps_in_order account cs"
    unfolding st by (rule sorted_desc_history)
  obtain now updates where l: "cs = butlast cs @ [(now, updates)]"
    using assms(1) by (metis append_butlast_last_id surj_pair)
  define before where "before = apply_changes account (butlast cs)"
  have res: "result = apply_updates now before updates"
    unfolding result_def before_def by (subst l) (rule apply_changes_snoc)
  have ch: "is_username_change before updates"
    using assms(2) unfolding before_def by (subst (asm) l) (simp add: username_changes_snoc)
  have h: "history_of result =
           take 20 (\<lparr> h_username = str_or (a_username before) ''(empty)'', h_changed_at = now \<rparr>
                      # history_of before)"
    unfolding res by (rule change_step(1)[OF ch])
  obtain u where u: "a_username result = Some u" "u \<noteq> []" "Some u \<noteq> a_username before"
    unfolding res using change_step(2)[OF ch, of now] by blast
  have ne: "history_of result \<noteq> []" unfolding h by simp
  have hu: "h_username (hd (history_of result)) = str_or (a_username before) ''(empty)''"
    unfolding h by simp
  have lc: "last cs = (now, updates)" by (subst l) simp
  have ht: "h_changed_at (hd (history_of result)) = fst (last cs)"
    unfolding h by (simp add: lc)
  have diff: "a_username result \<noteq> Some ''(empty)'' \<longrightarrow>
             Some (h_username (hd (history_of result))) \<noteq> a_username result"
    unfolding hu using u by (auto simp: str_or_def split: option.splits if_splits)
  show ?thesis
    using len st srt ne hu ht diff unfolding before_def by blast
qed

lemma is_username_change_rename:
  "is_username_change account (rename u) \<longleftrightarrow> u \<noteq> [] \<and> Some u \<noteq> a_username account"
  by (simp add: is_username_change_def rename_def no_updates_def)

lemma a_username_rename:
  "a_username (apply_updates now account (rename u)) = Some u"
  by (simp add: a_username_apply_updates spread_def rename_def no_updates_def)

theorem username_history_after_changes_witness:
  "[(10 :: timestamp, rename ''ann99''), (20, rename ''ann_b'')] \<noteq> []
   \<and> username_changes ((example_account 1 42)\<lparr> a_username := Some ''ann'' \<rparr>)
         [(10, rename ''ann99''), (20, rename ''ann_b'')]
   \<and> stamps_in_order ((example_account 1 42)\<lparr> a_username := Some ''ann'' \<rparr>)
         [(10, rename ''ann99''), (20, rename ''ann_b'')]
   \<and> length (history_of (apply_changes ((example_account 1 42)\<lparr> a_username := Some ''ann'' \<rparr>)
         [(10, rename ''ann99''), (20, rename ''ann_b'')])) \<le> 20
   \<and> sorted_wrt (\<lambda>x y. x \<ge> y) (map h_changed_at (history_of (apply_changes
         ((example_account 1 42)\<lparr> a_username := Some ''ann'' \<rparr>)
         [(10, rename ''ann99''), (20, rename ''ann_b'')])))
   \<and> h_username (hd (history_of (apply_changes ((example_account 1 42)\<lparr> a_username := Some ''ann'' \<rparr>)
         [(10, rename ''ann99''), (20, rename ''ann_b'')]))) = ''ann99''
   \<and> a_username (apply_changes ((example_account 1 42)\<lparr> a_username := Some ''ann'' \<rparr>)
         [(10, rename ''ann99''), (20, rename ''ann_b'')]) = Some ''ann_b''"
proof -
  define acc where "acc = (example_account 1 42)\<lparr> a_username := Some ''ann'' \<rparr>"
  define cs where "cs = [(10 :: timestamp, rename ''ann99''), (20, rename ''ann_b'')]"
  have ne: "cs \<noteq> []" by (simp add: cs_def)
  have u0: "a_username acc = Some ''ann''" and h0: "history_of acc = []"
    by (simp_all add: acc_def example_account_def history_of_def)
  have u1: "a_username (apply_updates 10 acc (rename ''ann99'')) = Some ''ann99''"
    by (simp add: a_username_rename)
  have uc: "username_changes acc cs"
    by (simp add: cs_def is_username_change_rename u0 u1)
  have cm: "stamps_in_order acc cs"
    by (simp add: stamps_in_order_def cs_def h0 Let_def)
  have b: "apply_changes acc (butlast cs) = apply_updates 10 acc (rename ''ann99'')"
    by (simp add: cs_def apply_changes_def)
  have r: "a_username (apply_changes acc cs) = Some ''ann_b''"
    by (simp add: cs_def apply_changes_def a_username_rename)
  have s: "str_or (Some ''ann99'') ''(empty)'' = ''ann99''"
    by (simp add: str_or_def)
  note t = username_history_after_changes [OF ne uc, unfolded b u1 s]
  show ?thesis
    unfolding acc_def[symmetric] cs_def[symmetric]
    using t ne uc cm r by blast
qed

text \<open>
  The claim as stated fails: renaming \<open>ann\<close> to \<open>bob\<close> and back to \<open>ann\<close> leaves an entry
  \<open>ann\<close> in the history of an account whose current username is \<open>ann\<close>; and naming an
  account without a username \<open>(empty)\<close> makes the most recent entry equal the current
  username. The stamps need not descend either: an account whose stored history has the
  stamps 5, 9 has the stamps 10, 5, 9 after a change at 10, and a change at 20 followed by
  one at 10 (the clock set back) gives the stamps 10, 20.
\<close>

theorem username_history_after_changes_counterexample:
  "username_changes ((example_account 1 42)\<lparr> a_username := Some ''ann'' \<rparr>)
         [(10, rename ''bob''), (20, rename ''ann'')]
   \<and> a_username (apply_changes ((example_account 1 42)\<lparr> a_username := Some ''ann'' \<rparr>)
         [(10, rename ''bob''), (20, rename ''ann'')]) = Some ''ann''
   \<and> map h_username (history_of (apply_changes ((example_account 1 42)\<lparr> a_username := Some ''ann'' \<rparr>)
         [(10, rename ''bob''), (20, rename ''ann'')])) = [''bob'', ''ann'']
   \<and> username_changes (example_account 1 42) [(10, rename ''(empty)'')]
   \<and> a_username (apply_changes (example_account 1 42) [(10, rename ''(empty)'')]) = Some ''(empty)''
   \<and> map h_username (history_of (apply_changes (example_account 1 42) [(10, rename ''(empty)'')]))
       = [''(empty)'']
   \<and> username_changes
         ((example_account 1 42)\<lparr> a_username := Some ''ann'',
              a_username_history := Some [\<lparr> h_username = ''al'', h_changed_at = 5 \<rparr>,
                                          \<lparr> h_username = ''an'', h_changed_at = 9 \<rparr>] \<rparr>)
         [(10, rename ''bob'')]
   \<and> map h_changed_at (history_of (apply_changes
         ((example_account 1 42)\<lparr> a_username := Some ''ann'',
              a_username_history := Some [\<lparr> h_username = ''al'', h_changed_at = 5 \<rparr>,
                                          \<lparr> h_username = ''an'', h_changed_at = 9 \<rparr>] \<rparr>)
         [(10, rename ''bob'')])) = [10, 5, 9]
   \<and> username_changes ((example_account 1 42)\<lparr> a_username := Some ''ann'' \<rparr>)
         [(20, rename ''bob''), (10, rename ''carl'')]
   \<and> map h_changed_at (history_of (apply_changes ((example_account 1 42)\<lparr> a_username := Some ''ann'' \<rparr>)
         [(20, rename ''bob''), (10, rename ''carl'')])) = [10, 20]"
proof -
  define acc where "acc = (example_account 1 42)\<lparr> a_username := Some ''ann'' \<rparr>"
  define old where "old = (example_account 1 42)\<lparr> a_username := Some ''ann'',
              a_username_history := Some [\<lparr> h_username = ''al'', h_changed_at = 5 \<rparr>,
                                          \<lparr> h_username = ''an'', h_changed_at = 9 \<rparr>] \<rparr>"
  have u0: "a_username acc = Some ''ann''" and h0: "history_of acc = []"
    by (simp_all add: acc_def example_account_def history_of_def)
  have o0: "a_username old = Some ''ann''"
    and oh: "history_of old = [\<lparr> h_username = ''al'', h_changed_at = 5 \<rparr>,
                               \<lparr> h_username = ''an'', h_changed_at = 9 \<rparr>]"
    by (simp_all add: old_def example_account_def history_of_def)
  have c4: "is_username_change old (rename ''bob'')"
    by (simp add: is_username_change_rename o0)
  have h4: "map h_changed_at (history_of (apply_changes old [(10, rename ''bob'')])) = [10, 5, 9]"
    by (simp add: apply_changes_def change_step(1)[OF c4] oh del: history_of_apply_updates)
  have u5: "a_username (apply_updates 20 acc (rename ''bob'')) = Some ''bob''"
    by (simp add: a_username_rename)
  have c5: "is_username_change acc (rename ''bob'')"
    by (simp add: is_username_change_rename u0)
  have c6: "is_username_change (apply_updates 20 acc (rename ''bob'')) (rename ''carl'')"
    by (simp add: is_username_change_rename u5)
  have uc5: "username_changes acc [(20, rename ''bob''), (10, rename ''carl'')]"
    using c5 c6 by simp
  have h5: "map h_changed_at (history_of (apply_changes acc [(20, rename ''bob''), (10, rename ''carl'')]))
              = [10, 20]"
    by (simp add: apply_changes_def change_step(1)[OF c6] change_step(1)[OF c5] h0
        del: history_of_apply_updates)
  have u1: "a_username (apply_updates 10 acc (rename ''bob'')) = Some ''bob''"
    by (simp add: a_username_rename)
  have c1: "is_username_change acc (rename ''bob'')"
    by (simp add: is_username_change_rename u0)
  have c2: "is_username_change (apply_updates 10 acc (rename ''bob'')) (rename ''ann'')"
    by (simp add: is_username_change_rename u1)
  have uc: "username_changes acc [(10, rename ''bob''), (20, rename ''ann'')]"
    using c1 c2 by simp
  have r: "a_username (apply_changes acc [(10, rename ''bob''), (20, rename ''ann'')]) = Some ''ann''"
    by (simp add: apply_changes_def a_username_rename)
  have h: "map h_username (history_of (apply_changes acc [(10, rename ''bob''), (20, rename ''ann'')]))
             = [''bob'', ''ann'']"
    by (simp add: apply_changes_def change_step(1)[OF c2] change_step(1)[OF c1] h0 u0 u1 str_or_def
        del: history_of_apply_updates)
  have v0: "a_username (example_account 1 42) = None" and g0: "history_of (example_account 1 42) = []"
    by (simp_all add: example_account_def history_of_def)
  have c3: "is_username_change (example_account 1 42) (rename ''(empty)'')"
    by (simp add: is_username_change_rename v0)
  have r3: "a_username (apply_changes (example_account 1 42) [(10, rename ''(empty)'')]) = Some ''(empty)''"
    by (simp add: apply_changes_def a_username_rename)
  have h3: "map h_username (history_of (apply_changes (example_account 1 42) [(10, rename ''(empty)'')]))
       = [''(empty)'']"
    by (simp add: apply_changes_def change_step(1)[OF c3] g0 v0 str_or_def del: history_of_apply_updates)
  show ?thesis
    using uc r h c3 r3 h3 c4 h4 uc5 h5 unfolding acc_def old_def by simp
qed

subsection \<open>Referential repair\<close>

lemma repair_Cons:
  "managers \<noteq> [] \<Longrightarrow>
     repair now managers prev = repair_chats now (m_id ` set managers) (m_id (hd managers)) prev"
  by (cases managers) (simp_all add: repair_def)

lemma hd_manager_id: "managers \<noteq> [] \<Longrightarrow> m_id (hd managers) \<in> m_id ` set managers"
  by (cases managers) simp_all

lemma normalize_chat_owned:
  assumes "f \<in> ids"
  shows "owned_by ids (fst (normalize_chat ids f c))"
  using assms by (auto simp: normalize_chat_def owned_by_def split: owner_ref.splits)

lemma normalize_chat_fixed:
  assumes "owned_by ids c"
  shows "normalize_chat ids f c = (c, False)"
  using assms by (auto simp: normalize_chat_def owned_by_def split: owner_ref.splits)

lemma normalize_chat_unchanged:
  assumes "\<not> snd (normalize_chat ids f c)"
  shows "owned_by ids c"
  using assms by (auto simp: normalize_chat_def owned_by_def split: owner_ref.splits if_splits)

lemma createMockChats_owned:
  assumes "f \<in> ids" and "c \<in> set (createMockChats now f)"
  shows "owned_by ids c"
  using assms by (auto simp: createMockChats_def owned_by_def)

lemma createMockChats_nonempty: "createMockChats now i \<noteq> []"
  by (simp add: createMockChats_def)

lemma repair_chats_owned_noop:
  assumes "chats \<noteq> []" and "\<forall>c\<in>set chats. owned_by ids c"
  shows "repair_chats now ids f chats = (chats, None)"
proof -
  have "\<not> list_ex snd (map (normalize_chat ids f) chats)"
    using assms(2) by (simp add: list_ex_iff normalize_chat_fixed)
  then show ?thesis
    using assms(1) by (simp add: repair_chats_def Let_def)
qed

lemma repair_chats_pointwise:
  assumes "chats \<noteq> []"
  shows "fst (repair_chats now ids f chats) = map (\<lambda>c. fst (normalize_chat ids f c)) chats"
proof (cases "list_ex snd (map (normalize_chat ids f) chats)")
  case True
  then show ?thesis using assms by (simp add: repair_chats_def Let_def comp_def)
next
  case False
  then have eq: "fst (repair_chats now ids f chats) = chats"
    using assms by (simp add: repair_chats_def Let_def)
  from False have "\<forall>c\<in>set chats. owned_by ids c"
    by (auto simp: list_ex_iff intro: normalize_chat_unchanged)
  then have "map (\<lambda>c. fst (normalize_chat ids f c)) chats = chats"
    by (simp add: normalize_chat_fixed map_idI)
  with eq show ?thesis by simp
qed

lemma repair_chats_owned:
  assumes "f \<in> ids" and "c \<in> set (fst (repair_chats now ids f chats))"
  shows "owned_by ids c"
proof (cases "chats = []")
  case True
  then have "fst (repair_chats now ids f chats) = createMockChats now f"
    by (simp add: repair_chats_def)
  with assms show ?thesis by (simp add: createMockChats_owned)
next
  case False
  from assms(2) obtain c0 where "c = fst (normalize_chat ids f c0)"
    unfolding repair_chats_pointwise[OF False] by auto
  then show ?thesis using normalize_chat_owned[OF assms(1)] by simp
qed

lemma repair_chats_nonempty: "fst (repair_chats now ids f chats) \<noteq> []"
  by (simp add: repair_chats_def Let_def createMockChats_nonempty)

lemma normalize_chat_cases:
  "fst (normalize_chat ids f c) =
     (if owned_by ids c then c
      else if hint_ok ids c then c\<lparr> c_manager_id := c_account_id c \<rparr>
      else c\<lparr> c_manager_id := Ref f \<rparr>)"
  by (auto simp: normalize_chat_def owned_by_def hint_ok_def split: owner_ref.splits)

text \<open>
  C4. With at least one manager, after one repair pass every chat's \<open>manager_id\<close> is the id
  of a current manager, and a second pass on the result (at any time) returns it unchanged
  and writes nothing. On a non-empty chat list the pass keeps the length and the order,
  leaves a chat with a valid owner as it is, gives a chat with a dangling owner its legacy
  \<open>account_id\<close> when that is a current manager id, and the id of the first manager
  otherwise. On an empty chat list it seeds the mock chats under the first manager.
\<close>

theorem repair_converges:
  fixes now now' :: timestamp and managers chats
  assumes "managers \<noteq> []"
  defines "ids \<equiv> m_id ` set managers"
  defines "repaired \<equiv> fst (repair now managers chats)"
  shows "list_all (owned_by ids) repaired
       \<and> repair now' managers repaired = (repaired, None)
       \<and> (chats = [] \<longrightarrow> repaired = createMockChats now (m_id (hd managers)))
       \<and> (chats \<noteq> [] \<longrightarrow> length repaired = length chats
            \<and> (\<forall>i < length chats.
                  (owned_by ids (chats ! i) \<longrightarrow> repaired ! i = chats ! i)
                \<and> (\<not> owned_by ids (chats ! i) \<and> hint_ok ids (chats ! i) \<longrightarrow>
                     repaired ! i = (chats ! i)\<lparr> c_manager_id := c_account_id (chats ! i) \<rparr>)
                \<and> (\<not> owned_by ids (chats ! i) \<and> \<not> hint_ok ids (chats ! i) \<longrightarrow>
                     repaired ! i = (chats ! i)\<lparr> c_manager_id := Ref (m_id (hd managers)) \<rparr>)))"
proof -
  have f: "m_id (hd managers) \<in> ids"
    unfolding ids_def using assms(1) by (rule hd_manager_id)
  have r: "repaired = fst (repair_chats now ids (m_id (hd managers)) chats)"
    unfolding repaired_def ids_def by (simp add: repair_Cons[OF assms(1)])
  have own: "\<forall>c\<in>set repaired. owned_by ids c"
    unfolding r using repair_chats_owned[OF f] by blast
  have ne: "repaired \<noteq> []"
    unfolding r by (rule repair_chats_nonempty)
  have again: "repair now' managers repaired = (repaired, None)"
    unfolding repair_Cons[OF assms(1)] ids_def[symmetric]
    using ne own by (rule repair_chats_owned_noop)
  have seed: "chats = [] \<longrightarrow> repaired = createMockChats now (m_id (hd managers))"
    unfolding r by (simp add: repair_chats_def)
  have pw: "repaired = map (\<lambda>c. fst (normalize_chat ids (m_id (hd managers)) c)) chats"
    if "chats \<noteq> []"
    unfolding r using that by (rule repair_chats_pointwise)
  have pt: "length repaired = length chats
            \<and> (\<forall>i < length chats.
                  (owned_by ids (chats ! i) \<longrightarrow> repaired ! i = chats ! i)
                \<and> (\<not> owned_by ids (chats ! i) \<and> hint_ok ids (chats ! i) \<longrightarrow>
                     repaired ! i = (chats ! i)\<lparr> c_manager_id := c_account_id (chats ! i) \<rparr>)
                \<and> (\<not> owned_by ids (chats ! i) \<and> \<not> hint_ok ids (chats ! i) \<longrightarrow>
                     repaired ! i = (chats ! i)\<lparr> c_manager_id := Ref (m_id (hd managers)) \<rparr>))"
    if "chats \<noteq> []"
    unfolding pw[OF that] by (simp add: normalize_chat_cases)
  show ?thesis
    using own again seed pt by (simp add: list_all_iff)
qed

theorem repair_converges_witness:
  "[example_manager 1, example_manager 2] \<noteq> []
   \<and> map c_manager_id (fst (repair 0 [example_manager 1, example_manager 2]
         [(example_chat 7 Private (Some ''Ann'') None None)\<lparr> c_manager_id := Ref 99 \<rparr>])) = [Ref 1]
   \<and> repair 5 [example_manager 1, example_manager 2]
         (fst (repair 0 [example_manager 1, example_manager 2]
           [(example_chat 7 Private (Some ''Ann'') None None)\<lparr> c_manager_id := Ref 99 \<rparr>]))
       = (fst (repair 0 [example_manager 1, example_manager 2]
           [(example_chat 7 Private (Some ''Ann'') None None)\<lparr> c_manager_id := Ref 99 \<rparr>]), None)"
proof -
  have ne: "[example_manager 1, example_manager 2] \<noteq> []" by simp
  have one: "map c_manager_id (fst (repair 0 [example_manager 1, example_manager 2]
         [(example_chat 7 Private (Some ''Ann'') None None)\<lparr> c_manager_id := Ref 99 \<rparr>])) = [Ref 1]"
    by (simp add: repair_def repair_chats_def normalize_chat_def example_manager_def example_chat_def Let_def)
  show ?thesis
    using one ne repair_converges [OF ne, where now = 0 and now' = 5
      and chats = "[(example_chat 7 Private (Some ''Ann'') None None)\<lparr> c_manager_id := Ref 99 \<rparr>]"]
    by blast
qed

subsection \<open>Migration, initial load and manager deletion\<close>







lemma migrateToManagers_isl:
  "isl (migrateToManagers now x)
     \<longleftrightarrow> ls_managers (fst x) = Unreadable \<or> ls_chats (fst x) = Unreadable"
  by (simp add: migrateToManagers_def Let_def)



lemma initial_load_throws:
  assumes "ls_logged_in ls" and "ls_transfers ls = Corrupt"
  shows "initial_load now (ls, st) = Inl SyntaxError"
  using assms by (simp add: initial_load_def load_unguarded_def)

lemma initial_load_returns:
  assumes "ls_transfers ls \<noteq> Corrupt"
    and "ls_managers ls \<noteq> Unreadable" and "ls_chats ls \<noteq> Unreadable"
  shows "\<exists>r. initial_load now (ls, st) = Inr r"
proof (cases "ls_logged_in ls")
  case False
  then show ?thesis by (simp add: initial_load_def)
next
  case True
  obtain trs where t: "load_unguarded (ls_transfers ls) (st_transferRecords st) = Inr trs"
    using assms(1) by (cases "ls_transfers ls") (simp_all add: load_unguarded_def)
  have m: "\<not> isl (migrateToManagers now (ls, st'))" for st'
    using assms(2,3) by (simp add: migrateToManagers_isl)
  have nl: "migrateToManagers now (ls, st') \<noteq> Inl el" for st' el
    using m[of st'] by (cases "migrateToManagers now (ls, st')") simp_all
  show ?thesis
    using True t assms(2)
    by (simp add: initial_load_def Let_def nl split: sum.splits)
qed

lemma initial_load_no_syntax_error:
  assumes "ls_transfers ls \<noteq> Corrupt"
  shows "initial_load now (ls, st) \<noteq> Inl SyntaxError"
proof -
  have "fst el = TypeError" if "migrateToManagers now (ls, st') = Inl el" for st' el
    using that by (auto simp: migrateToManagers_def Let_def split: if_splits)
  then show ?thesis
    using assms
    by (cases "ls_transfers ls")
       (auto simp: initial_load_def load_unguarded_def Let_def split: sum.splits)
qed

lemma initial_load_other_corrupt:
  "\<exists>r. initial_load now
         (empty_storage\<lparr> ls_accounts := Corrupt, ls_keywords := Corrupt, ls_managers := Corrupt,
                           ls_chats := Corrupt \<rparr>, st) = Inr r"
  by (rule initial_load_returns) (simp_all add: empty_storage_def)

text \<open>
  C6. The claim fails on the transfers collection: its payload is parsed outside any
  \<open>try\<close>, so with a corrupt transfers payload the load ends in the \<open>SyntaxError\<close> of
  \<open>JSON.parse\<close>, and the keywords, the managers, the migration and the chats are not loaded.
\<close>

theorem initial_load_corrupt_transfers:
  "initial_load 1000 (empty_storage\<lparr> ls_transfers := Corrupt \<rparr>, empty_state) = Inl SyntaxError"
  by (rule initial_load_throws) (simp_all add: empty_storage_def)

text \<open>
  C9. \<open>deleteManager(id)\<close> leaves no manager with that id and keeps the other managers; the
  chats left are exactly the chats whose \<open>manager_id\<close> is not the id, unchanged and in their
  order (the chats of the deleted manager are removed, none is reassigned); the accounts
  collection, in the state and in the storage, is unchanged.
\<close>

theorem deleteManager_cascade:
  fixes ident :: int and x
  defines "x' \<equiv> deleteManager ident x"
  shows "ident \<notin> m_id ` set (st_managers (snd x'))
       \<and> set (st_managers (snd x')) = {m \<in> set (st_managers (snd x)). m_id m \<noteq> ident}
       \<and> st_chats (snd x') = filter (\<lambda>c. c_manager_id c \<noteq> Ref ident) (st_chats (snd x))
       \<and> list_all (\<lambda>c. c_manager_id c \<noteq> Ref ident) (st_chats (snd x'))
       \<and> st_accounts (snd x') = st_accounts (snd x)
       \<and> ls_accounts (fst x') = ls_accounts (fst x)
       \<and> ls_managers (fst x') = Stored (st_managers (snd x'))
       \<and> ls_chats (fst x') = Stored (st_chats (snd x'))"
  unfolding x'_def by (auto simp: deleteManager_def Let_def list_all_iff)

theorem deleteManager_cascade_witness:
  "map m_id (st_managers (snd (deleteManager 1
       (empty_storage,
        empty_state\<lparr> st_managers := [example_manager 1, example_manager 2],
                     st_chats := [(example_chat 7 Private None None None)\<lparr> c_manager_id := Ref 1 \<rparr>,
                                  (example_chat 8 Private None None None)\<lparr> c_manager_id := Ref 2 \<rparr>],
                     st_accounts := [(example_account 5 42)\<lparr> a_manager_id := Some 1 \<rparr>] \<rparr>)))) = [2]
   \<and> map c_id (st_chats (snd (deleteManager 1
       (empty_storage,
        empty_state\<lparr> st_managers := [example_manager 1, example_manager 2],
                     st_chats := [(example_chat 7 Private None None None)\<lparr> c_manager_id := Ref 1 \<rparr>,
                                  (example_chat 8 Private None None None)\<lparr> c_manager_id := Ref 2 \<rparr>],
                     st_accounts := [(example_account 5 42)\<lparr> a_manager_id := Some 1 \<rparr>] \<rparr>)))) = [8]
   \<and> map a_manager_id (st_accounts (snd (deleteManager 1
       (empty_storage,
        empty_state\<lparr> st_managers := [example_manager 1, example_manager 2],
                     st_chats := [(example_chat 7 Private None None None)\<lparr> c_manager_id := Ref 1 \<rparr>,
                                  (example_chat 8 Private None None None)\<lparr> c_manager_id := Ref 2 \<rparr>],
                     st_accounts := [(example_account 5 42)\<lparr> a_manager_id := Some 1 \<rparr>] \<rparr>)))) = [Some 1]"
proof -
  define x where "x = (empty_storage,
        empty_state\<lparr> st_managers := [example_manager 1, example_manager 2],
                     st_chats := [(example_chat 7 Private None None None)\<lparr> c_manager_id := Ref 1 \<rparr>,
                                  (example_chat 8 Private None None None)\<lparr> c_manager_id := Ref 2 \<rparr>],
                     st_accounts := [(example_account 5 42)\<lparr> a_manager_id := Some 1 \<rparr>] \<rparr>)"
  have m: "map m_id (st_managers (snd (deleteManager 1 x))) = [2]"
    by (simp add: x_def deleteManager_def Let_def example_manager_def)
  have c: "map c_id (filter (\<lambda>c. c_manager_id c \<noteq> Ref 1) (st_chats (snd x))) = [8]"
    by (simp add: x_def example_chat_def)
  have a: "map a_manager_id (st_accounts (snd x)) = [Some 1]"
    by (simp add: x_def)
  note t = deleteManager_cascade [of 1 x]
  from t have c': "st_chats (snd (deleteManager 1 x)) = filter (\<lambda>c. c_manager_id c \<noteq> Ref 1) (st_chats (snd x))"
    and a': "st_accounts (snd (deleteManager 1 x)) = st_accounts (snd x)" by blast+
  show ?thesis
    unfolding x_def[symmetric] using m c a by (simp add: c' a')
qed

subsection \<open>The transfers form\<close>

lemma handleSubmit_call_equal:
  assumes "tf_supplier_account_id (ui_form ui) = tf_client_account_id (ui_form ui)"
  shows "isl (handleSubmit_call ui)"
  using assms by (simp add: handleSubmit_call_def split: option.splits)

lemma handleSubmit_call_parties:
  assumes "handleSubmit_call ui = Inr call"
  shows "(\<exists>d. call = CallAdd d \<and> td_supplier_account_id d \<noteq> td_client_account_id d)
       \<or> (\<exists>i s c u. call = CallUpdate i u \<and> tp_supplier_account_id u = Some s
              \<and> tp_client_account_id u = Some c \<and> s \<noteq> c)"
  using assms by (auto simp: handleSubmit_call_def split: option.splits if_splits)

lemma perform_keeps_parties:
  assumes "list_all distinct_parties transfers" and "handleSubmit_call ui = Inr call"
  shows "list_all distinct_parties (perform now call transfers)"
  using handleSubmit_call_parties[OF assms(2)] assms(1)
  by (auto simp: perform_def addTransferRecord_def updateTransferRecord_def
        apply_transfer_updates_def spread_def distinct_parties_def list_all_iff)

text \<open>
  C8. A submission of the transfers form whose supplier and client are equal makes no store
  call (it ends with an error message) and leaves the transfers collection as it is. A
  submission that reaches the store carries a supplier different from the client, so a
  collection in which supplier and client differ in every record stays so under
  \<open>handleSubmit\<close>, whether it creates a record or edits one.
\<close>

theorem handleSubmit_rejects_equal_parties:
  "(tf_supplier_account_id (ui_form ui) = tf_client_account_id (ui_form ui) \<longrightarrow>
       isl (handleSubmit_call ui) \<and> snd (handleSubmit now (ui, transfers)) = transfers)
   \<and> (list_all distinct_parties transfers \<longrightarrow>
       list_all distinct_parties (snd (handleSubmit now (ui, transfers))))"
proof -
  have a: "isl (handleSubmit_call ui) \<and> snd (handleSubmit now (ui, transfers)) = transfers"
    if "tf_supplier_account_id (ui_form ui) = tf_client_account_id (ui_form ui)"
  proof -
    from that have "isl (handleSubmit_call ui)" by (rule handleSubmit_call_equal)
    then show ?thesis by (auto simp: handleSubmit_def isl_def)
  qed
  have b: "list_all distinct_parties (snd (handleSubmit now (ui, transfers)))"
    if "list_all distinct_parties transfers"
  proof (cases "handleSubmit_call ui")
    case (Inl msg)
    with that show ?thesis by (simp add: handleSubmit_def)
  next
    case (Inr call)
    with perform_keeps_parties[OF that Inr] show ?thesis by (simp add: handleSubmit_def)
  qed
  show ?thesis using a b by blast
qed

theorem handleSubmit_rejects_equal_parties_witness:
  "tf_supplier_account_id (ui_form (example_form (Some 5) (Some 5) None))
     = tf_client_account_id (ui_form (example_form (Some 5) (Some 5) None))
   \<and> isl (handleSubmit_call (example_form (Some 5) (Some 5) None))
   \<and> snd (handleSubmit 1000 (example_form (Some 5) (Some 5) None, [example_transfer 1 2 3]))
       = [example_transfer 1 2 3]
   \<and> list_all distinct_parties [example_transfer 1 2 3]
   \<and> list_all distinct_parties
        (snd (handleSubmit 1000 (example_form (Some 5) (Some 5) None, [example_transfer 1 2 3])))"
proof -
  have e: "tf_supplier_account_id (ui_form (example_form (Some 5) (Some 5) None))
     = tf_client_account_id (ui_form (example_form (Some 5) (Some 5) None))"
    by (simp add: example_form_def)
  have d: "list_all distinct_parties [example_transfer 1 2 3]"
    by (simp add: distinct_parties_def example_transfer_def)
  show ?thesis
    using e d handleSubmit_rejects_equal_parties
      [of "example_form (Some 5) (Some 5) None" 1000 "[example_transfer 1 2 3]"]
    by blast
qed

subsection \<open>Chat members\<close>

lemma addMembersBulk_keys:
  "map member_key (addMembersBulk now chatId userIds prev) =
     map member_key prev @
     map (\<lambda>ident. (chatId, ident))
       (filter (\<lambda>ident. (chatId, ident) \<notin> set (map member_key prev)) userIds)"
proof -
  have s: "(\<lambda>ident. ident \<notin> cm_user_id ` {m \<in> set prev. cm_chat_id m = chatId})
         = (\<lambda>ident. (chatId, ident) \<notin> member_key ` set prev)"
    by (auto simp: member_key_def image_iff)
  have e: "map (\<lambda>x. (chatId, snd x)) (enumerate 0 xs) = map (\<lambda>ident. (chatId, ident)) xs" for xs :: "int list"
    by (simp add: enumerate_eq_zip map_snd_zip_take comp_def flip: map_map[of "\<lambda>i. (chatId, i)" snd, unfolded comp_def])
  show ?thesis
    by (cases "userIds = []")
       (simp_all add: addMembersBulk_def Let_def member_key_def comp_def case_prod_beta s[unfolded member_key_def] e)
qed

lemma addMembersBulk_extends:
  "\<exists>additions. addMembersBulk now chatId userIds prev = prev @ additions
      \<and> length additions =
          length (filter (\<lambda>ident. (chatId, ident) \<notin> set (map member_key prev)) userIds)"
proof -
  have "take (length prev) (addMembersBulk now chatId userIds prev) = prev"
    by (simp add: addMembersBulk_def Let_def)
  then have "addMembersBulk now chatId userIds prev = prev @ drop (length prev) (addMembersBulk now chatId userIds prev)"
    by (metis append_take_drop_id)
  moreover have "length (addMembersBulk now chatId userIds prev) =
      length prev + length (filter (\<lambda>ident. (chatId, ident) \<notin> set (map member_key prev)) userIds)"
    using arg_cong[OF addMembersBulk_keys[of now chatId userIds prev], of length] by simp
  ultimately show ?thesis
    by (intro exI[of _ "drop (length prev) (addMembersBulk now chatId userIds prev)"]) simp
qed

lemma addMembersBulk_no_change:
  assumes "\<forall>ident\<in>set userIds. (chatId, ident) \<in> set (map member_key prev)"
  shows "addMembersBulk now chatId userIds prev = prev"
proof -
  from assms have "filter (\<lambda>ident. (chatId, ident) \<notin> set (map member_key prev)) userIds = []"
    by (simp add: filter_empty_conv)
  with addMembersBulk_extends[of now chatId userIds prev] show ?thesis by auto
qed

lemma addMembersBulk_distinct:
  assumes "distinct userIds" and "distinct (map member_key prev)"
  shows "distinct (map member_key (addMembersBulk now chatId userIds prev))"
  unfolding addMembersBulk_keys using assms
  by (auto simp: distinct_map inj_on_def)

text \<open>
  C10. The claim fails for an id list that names an id twice: ids are filtered against the
  members already in the collection, not against each other, so \<open>addMembersBulk(7, [5, 5])\<close>
  on an empty collection appends two records for the pair (7, 5), the first as creator and
  the second as member.
\<close>

theorem addMembersBulk_duplicate_ids:
  "map member_key (addMembersBulk 1000 7 [5, 5] []) = [(7, 5), (7, 5)]
   \<and> map cm_role (addMembersBulk 1000 7 [5, 5] []) = [Some Creator, Some Member]
   \<and> \<not> distinct (map member_key (addMembersBulk 1000 7 [5, 5] []))"
proof -
  have k: "map member_key (addMembersBulk 1000 7 [5, 5] []) = [(7, 5), (7, 5)]"
    by (simp add: addMembersBulk_keys)
  have r: "map cm_role (addMembersBulk 1000 7 [5, 5] []) = [Some Creator, Some Member]"
    by (simp add: addMembersBulk_def Let_def enumerate_eq_zip upt_rec)
  show ?thesis using k r by simp
qed

end
